theory Spec2Isabelle
  imports Main "HOL-Library.AList"
begin

section \<open>Data model of \<open>qiita_client.py\<close>\<close>

text \<open>
  Python identifiers that start with an underscore lose it here (\<open>_format_payload\<close> is
  \<open>format_payload\<close>, \<open>self._token\<close> is \<open>self_token\<close>), since an Isabelle name starts with a
  letter. Python's \<open>None\<close> is \<open>None\<close> of an option type, or \<open>JNull\<close> where the value is
  parsed JSON.
\<close>

subsection \<open>ArtifactInfo\<close>

record ArtifactInfo =
  output_name :: string
  artifact_type :: string
  files :: "(string \<times> string) list"

text \<open>
  The right operand of \<open>__eq__\<close> is any Python object: an \<open>ArtifactInfo\<close>, or an object of
  another type, for which \<open>type(self) != type(other)\<close> holds.
\<close>

datatype pyobject = ArtifactInfoObj ArtifactInfo | OtherObj

definition ArtifactInfo_eq :: "ArtifactInfo \<Rightarrow> pyobject \<Rightarrow> bool" where
  "ArtifactInfo_eq self other =
     (case other of
        OtherObj \<Rightarrow> False
      | ArtifactInfoObj b \<Rightarrow>
          (if output_name self \<noteq> output_name b \<or>
              artifact_type self \<noteq> artifact_type b \<or>
              set (files self) \<noteq> set (files b)
           then False
           else True))"

definition ArtifactInfo_ne :: "ArtifactInfo \<Rightarrow> pyobject \<Rightarrow> bool" where
  "ArtifactInfo_ne self other = (\<not> ArtifactInfo_eq self other)"

subsection \<open>The completion payload\<close>

text \<open>
  The dict literal \<open>{'artifact_type': ..., 'filepaths': ...}\<close> and the payload dict have fixed
  keys, so they are records. The \<open>artifacts\<close> dict is an association list in insertion
  order; storing under a key that is already present replaces its value in place, which is
  what \<open>AList.update\<close> does.
\<close>

record artifact_entry =
  entry_artifact_type :: string
  entry_filepaths :: "(string \<times> string) list"

record payload =
  p_success :: bool
  p_error :: "string option"
  p_artifacts :: "(string \<times> artifact_entry) list option"

definition entry_of :: "ArtifactInfo \<Rightarrow> artifact_entry" where
  "entry_of a_info =
     \<lparr>entry_artifact_type = artifact_type a_info, entry_filepaths = files a_info\<rparr>"

text \<open>The dict comprehension of \<open>_format_payload\<close>, one store per element, left to right.\<close>

definition artifacts_dict :: "ArtifactInfo list \<Rightarrow> (string \<times> artifact_entry) list" where
  "artifacts_dict artifacts_info =
     foldl (\<lambda>d a_info. AList.update (output_name a_info) (entry_of a_info) d) [] artifacts_info"

definition format_payload ::
  "bool \<Rightarrow> string option \<Rightarrow> ArtifactInfo list option \<Rightarrow> payload" where
  "format_payload success error_msg artifacts_info =
     (let artifacts =
            (case artifacts_info of
               None \<Rightarrow> None
             | Some infos \<Rightarrow>
                 if success \<and> infos \<noteq> [] then Some (artifacts_dict infos) else None)
      in \<lparr>p_success = success,
          p_error = (if \<not> success then error_msg else Some ''''),
          p_artifacts = artifacts\<rparr>)"

subsection \<open>Parsed JSON and Python exceptions\<close>

text \<open>
  What \<open>r.json()\<close> returns. \<open>JNull\<close> is Python's \<open>None\<close>. A JSON object is the association
  list of the parsed dict.
\<close>

datatype json =
  JNull | JBool bool | JNum int | JStr string | JArr "json list" | JObj "(string \<times> json) list"

text \<open>Python truthiness: what \<open>if x\<close> and \<open>x and ...\<close> test.\<close>

fun truthy :: "json \<Rightarrow> bool" where
  "truthy JNull = False"
| "truthy (JBool b) = b"
| "truthy (JNum n) = (n \<noteq> 0)"
| "truthy (JStr s) = (s \<noteq> [])"
| "truthy (JArr xs) = (xs \<noteq> [])"
| "truthy (JObj kvs) = (kvs \<noteq> [])"

text \<open>
  The exceptions the two modules raise or let through. Each carries its message.
  \<open>BaseExceptionOnly\<close> stands for the exceptions that are not subclasses of \<open>Exception\<close>
  (\<open>KeyboardInterrupt\<close>, \<open>SystemExit\<close>), which \<open>except Exception\<close> does not catch.
\<close>

datatype exn =
  ConnectionError string
| ValueError string
| KeyError string
| TypeError string
| RuntimeError string
| AttributeError string
| UnboundLocalError string
| NotFoundError string
| ForbiddenError string
| BadRequestError string
| OtherException string
| BaseExceptionOnly string

text \<open>
  Modelled from the spec: the module \<open>exceptions.py\<close>, which \<open>qiita_client.py\<close> imports
  \<open>QiitaClientError\<close>, \<open>NotFoundError\<close>, \<open>BadRequestError\<close> and \<open>ForbiddenError\<close> from, is
  not among the sources. The spec calls the three errors of the status codes 404, 403 and
  400 the typed client errors; \<open>QiitaClientError\<close> is their common base class.
\<close>

fun is_QiitaClientError :: "exn \<Rightarrow> bool" where
  "is_QiitaClientError (NotFoundError m) = True"
| "is_QiitaClientError (ForbiddenError m) = True"
| "is_QiitaClientError (BadRequestError m) = True"
| "is_QiitaClientError e = False"

fun is_Exception :: "exn \<Rightarrow> bool" where
  "is_Exception (BaseExceptionOnly m) = False"
| "is_Exception e = True"

definition squote :: string where
  "squote = [CHR 0x27]"

text \<open>\<open>str(e)\<close>: the message, and for a \<open>KeyError\<close> the quoted key.\<close>

fun exn_str :: "exn \<Rightarrow> string" where
  "exn_str (ConnectionError m) = m"
| "exn_str (ValueError m) = m"
| "exn_str (KeyError k) = squote @ k @ squote"
| "exn_str (TypeError m) = m"
| "exn_str (RuntimeError m) = m"
| "exn_str (AttributeError m) = m"
| "exn_str (UnboundLocalError m) = m"
| "exn_str (NotFoundError m) = m"
| "exn_str (ForbiddenError m) = m"
| "exn_str (BadRequestError m) = m"
| "exn_str (OtherException m) = m"
| "exn_str (BaseExceptionOnly m) = m"

text \<open>
  \<open>x[key]\<close> with a string key: a dict answers with the value or \<open>KeyError\<close>, every other
  value with \<open>TypeError\<close>.
\<close>

fun subscript :: "json \<Rightarrow> string \<Rightarrow> exn + json" where
  "subscript (JObj kvs) k = (case map_of kvs k of Some v \<Rightarrow> Inr v | None \<Rightarrow> Inl (KeyError k))"
| "subscript (JStr s) k = Inl (TypeError ''string indices must be integers'')"
| "subscript (JArr xs) k = Inl (TypeError ''list indices must be integers'')"
| "subscript j k = Inl (TypeError ''object is not subscriptable'')"

text \<open>\<open>'%d' % n\<close> for an integer.\<close>

fun show_nat :: "nat \<Rightarrow> string" where
  "show_nat n =
     (if n < 10 then [''0123456789'' ! n]
      else show_nat (n div 10) @ [''0123456789'' ! (n mod 10)])"

definition show_int :: "int \<Rightarrow> string" where
  "show_int i = (if i < 0 then ''-'' @ show_nat (nat (- i)) else show_nat (nat i))"

subsection \<open>The network\<close>

text \<open>
  A \<open>requests.Response\<close>: its status code, its text, and what \<open>r.json()\<close> gives
  (\<open>None\<close> when it raises \<open>ValueError\<close>, the body being absent or not JSON).
\<close>

record response =
  status_code :: int
  body_text :: string
  body_json :: "json option"

datatype req = Get | Post | Patch

fun req_name :: "req \<Rightarrow> string" where
  "req_name Get = ''get''"
| "req_name Post = ''post''"
| "req_name Patch = ''patch''"

text \<open>\<open>self._verify\<close>: \<open>True\<close>, or the path of the server certificate.\<close>

datatype verify_arg = VerifyTrue | VerifyCert string

text \<open>
  A header value is the caller's string, or \<open>'Bearer %s' % token\<close>, kept as the token it
  is formatted from.
\<close>

datatype header_value = Plain string | Bearer json

text \<open>
  The \<open>data\<close> argument: a string, a dict of strings, or \<open>dumps(payload)\<close>, kept as the
  payload that is serialised.
\<close>

datatype req_data = DataStr string | DataDict "(string \<times> string) list" | DataDumps payload

record kwargs =
  kw_headers :: "(string \<times> header_value) list option"
  kw_data :: "req_data option"

record http_call =
  c_req :: req
  c_url :: string
  c_headers :: "(string \<times> header_value) list option"
  c_verify :: verify_arg
  c_data :: "req_data option"

text \<open>
  Everything the program does to the outside is appended to a log: an HTTP call (whether it
  is answered or fails), a \<open>time.sleep\<close>, the start of the heartbeat thread, a \<open>makedirs\<close>.
  The server is any function from the log so far and the call to the call's outcome: a
  response, or the exception \<open>requests\<close> raises.
\<close>

datatype event = Net http_call | Sleep nat | ThreadStart string | MakeDirs string

record world =
  events :: "event list"
  JOB_COMPLETED :: bool

type_synonym server = "event list \<Rightarrow> http_call \<Rightarrow> exn + response"

definition send :: "server \<Rightarrow> http_call \<Rightarrow> world \<Rightarrow> (exn + response) \<times> world" where
  "send srv c w = (srv (events w) c, w\<lparr>events := events w @ [Net c]\<rparr>)"

definition sleep :: "nat \<Rightarrow> world \<Rightarrow> world" where
  "sleep secs w = w\<lparr>events := events w @ [Sleep secs]\<rparr>"

subsection \<open>QiitaClient\<close>

record QiitaClient =
  self_server_url :: string
  self_verify :: verify_arg
  self_client_id :: string
  self_client_secret :: string
  self_authenticate_url :: string
  self_token :: json

definition auth_call :: "QiitaClient \<Rightarrow> http_call" where
  "auth_call self =
     \<lparr>c_req = Post, c_url = self_authenticate_url self, c_headers = None,
      c_verify = self_verify self,
      c_data = Some (DataDict [(''client_id'', self_client_id self),
                               (''client_secret'', self_client_secret self),
                               (''grant_type'', ''client'')])\<rparr>"

definition fetch_token ::
  "server \<Rightarrow> QiitaClient \<Rightarrow> world \<Rightarrow> (exn + unit) \<times> QiitaClient \<times> world" where
  "fetch_token srv self w =
     (case send srv (auth_call self) w of
        (Inl e, w1) \<Rightarrow> (Inl e, self, w1)
      | (Inr r, w1) \<Rightarrow>
          if status_code r \<noteq> 200
          then (Inl (ValueError (''Can'' @ squote @ ''t authenticate with the Qiita server'')),
                self, w1)
          else (case body_json r of
                  None \<Rightarrow> (Inl (ValueError ''No JSON object could be decoded''), self, w1)
                | Some j \<Rightarrow>
                    (case subscript j ''access_token'' of
                       Inl e \<Rightarrow> (Inl e, self, w1)
                     | Inr t \<Rightarrow> (Inr (), self\<lparr>self_token := t\<rparr>, w1))))"

definition QiitaClient_init ::
  "server \<Rightarrow> string \<Rightarrow> string \<Rightarrow> string \<Rightarrow> string option \<Rightarrow> world \<Rightarrow>
     (exn + QiitaClient) \<times> world" where
  "QiitaClient_init srv server_url client_id client_secret server_cert w =
     (let self =
            \<lparr>self_server_url = server_url,
             self_verify =
               (case server_cert of
                  None \<Rightarrow> VerifyTrue
                | Some cert \<Rightarrow> if cert = [] then VerifyTrue else VerifyCert cert),
             self_client_id = client_id,
             self_client_secret = client_secret,
             self_authenticate_url = server_url @ ''/qiita_db/authenticate/'',
             self_token = JNull\<rparr>
      in case fetch_token srv self w of
           (Inl e, self1, w1) \<Rightarrow> (Inl e, w1)
         | (Inr u, self1, w1) \<Rightarrow> (Inr self1, w1))"

text \<open>
  \<open>kwargs['headers']['Authorization'] = 'Bearer %s' % self._token\<close>, in the caller's
  headers when there are some and in a new dict otherwise.
\<close>

definition with_authorization :: "json \<Rightarrow> kwargs \<Rightarrow> kwargs" where
  "with_authorization tok kw =
     kw\<lparr>kw_headers :=
          Some (AList.update ''Authorization'' (Bearer tok)
                  (case kw_headers kw of None \<Rightarrow> [] | Some hs \<Rightarrow> hs))\<rparr>"

text \<open>\<open>req(url, verify=..., **kwargs)\<close>.\<close>

definition call_of :: "req \<Rightarrow> string \<Rightarrow> verify_arg \<Rightarrow> kwargs \<Rightarrow> http_call" where
  "call_of rq url vfy kw =
     \<lparr>c_req = rq, c_url = url, c_headers = kw_headers kw, c_verify = vfy, c_data = kw_data kw\<rparr>"

definition request_oauth2 ::
  "server \<Rightarrow> QiitaClient \<Rightarrow> req \<Rightarrow> string \<Rightarrow> verify_arg \<Rightarrow> kwargs \<Rightarrow> world \<Rightarrow>
     (exn + response) \<times> QiitaClient \<times> world" where
  "request_oauth2 srv self rq url vfy kw w =
     (let kw1 = with_authorization (self_token self) kw in
      case send srv (call_of rq url vfy kw1) w of
        (Inl e, w1) \<Rightarrow> (Inl e, self, w1)
      | (Inr r, w1) \<Rightarrow>
          if status_code r = 400 then
            (let r_json = (case body_json r of Some j \<Rightarrow> j | None \<Rightarrow> JNull) in
             if \<not> truthy r_json then (Inr r, self, w1)
             else
               (case subscript r_json ''error_description'' of
                  Inl e \<Rightarrow> (Inl e, self, w1)
                | Inr d \<Rightarrow>
                    if d = JStr ''Oauth2 error: token has timed out'' then
                      (case fetch_token srv self w1 of
                         (Inl e, self2, w2) \<Rightarrow> (Inl e, self2, w2)
                       | (Inr u, self2, w2) \<Rightarrow>
                           (case send srv
                                   (call_of rq url vfy
                                      (with_authorization (self_token self2) kw1)) w2 of
                              (Inl e, w3) \<Rightarrow> (Inl e, self2, w3)
                            | (Inr r2, w3) \<Rightarrow> (Inr r2, self2, w3)))
                    else (Inr r, self, w1)))
          else (Inr r, self, w1))"

definition request_failed_message :: "req \<Rightarrow> string \<Rightarrow> response \<Rightarrow> string" where
  "request_failed_message rq url r =
     ''Request '' @ squote @ req_name rq @ '' '' @ url @ squote @
     '' did not succeed. Status code: '' @ show_int (status_code r) @
     ''. Message: '' @ body_text r"

text \<open>
  The \<open>while retries > 0\<close> loop of \<open>_request_retry\<close>; \<open>r\<close> is the local variable of that
  name, unbound before the first pass.
\<close>

function request_retry_loop ::
  "server \<Rightarrow> QiitaClient \<Rightarrow> req \<Rightarrow> string \<Rightarrow> kwargs \<Rightarrow> int \<Rightarrow> response option \<Rightarrow> world \<Rightarrow>
     (exn + json) \<times> QiitaClient \<times> world" where
  "request_retry_loop srv self rq url kw retries r w =
     (if retries > 0 then
        (case request_oauth2 srv self rq url (self_verify self) kw w of
           (Inl e, self1, w1) \<Rightarrow> (Inl e, self1, w1)
         | (Inr r1, self1, w1) \<Rightarrow>
             if status_code r1 = 404 then (Inl (NotFoundError (body_text r1)), self1, w1)
             else if status_code r1 = 403 then (Inl (ForbiddenError (body_text r1)), self1, w1)
             else if status_code r1 = 400 then (Inl (BadRequestError (body_text r1)), self1, w1)
             else if status_code r1 = 200 then
               (Inr (case body_json r1 of Some j \<Rightarrow> j | None \<Rightarrow> JNull), self1, w1)
             else request_retry_loop srv self1 rq url kw (retries - 1) (Some r1) w1)
      else
        (case r of
           None \<Rightarrow>
             (Inl (UnboundLocalError ''local variable r referenced before assignment''), self, w)
         | Some r0 \<Rightarrow> (Inl (RuntimeError (request_failed_message rq url r0)), self, w)))"
  by pat_completeness auto
termination
  by (relation "measure (\<lambda>(srv, self, rq, url, kw, retries, r, w). nat retries)") auto

declare request_retry_loop.simps [simp del]

definition request_retry ::
  "server \<Rightarrow> QiitaClient \<Rightarrow> req \<Rightarrow> string \<Rightarrow> kwargs \<Rightarrow> world \<Rightarrow>
     (exn + json) \<times> QiitaClient \<times> world" where
  "request_retry srv self rq url kw w =
     request_retry_loop srv self rq (self_server_url self @ url) kw 2 None w"

definition get ::
  "server \<Rightarrow> QiitaClient \<Rightarrow> string \<Rightarrow> kwargs \<Rightarrow> world \<Rightarrow> (exn + json) \<times> QiitaClient \<times> world" where
  "get srv self url kw w = request_retry srv self Get url kw w"

definition post ::
  "server \<Rightarrow> QiitaClient \<Rightarrow> string \<Rightarrow> kwargs \<Rightarrow> world \<Rightarrow> (exn + json) \<times> QiitaClient \<times> world" where
  "post srv self url kw w = request_retry srv self Post url kw w"

definition patch_data :: "string \<Rightarrow> string \<Rightarrow> string option \<Rightarrow> string option \<Rightarrow> (string \<times> string) list" where
  "patch_data op path val from_p =
     (let data = [(''op'', op), (''path'', path)];
          data = (case val of None \<Rightarrow> data | Some v \<Rightarrow> AList.update ''value'' v data);
          data = (case from_p of None \<Rightarrow> data | Some f \<Rightarrow> AList.update ''from'' f data)
      in data)"

definition patch ::
  "server \<Rightarrow> QiitaClient \<Rightarrow> string \<Rightarrow> string \<Rightarrow> string \<Rightarrow> string option \<Rightarrow> string option \<Rightarrow>
     kwargs \<Rightarrow> world \<Rightarrow> (exn + json) \<times> QiitaClient \<times> world" where
  "patch srv self url op path val from_p kw w =
     (if op \<in> set [''add'', ''replace'', ''test''] \<and> val = None then
        (Inl (ValueError (''Operation '' @ squote @ op @ squote @ '' requires the paramater '' @
                          squote @ ''value'' @ squote)), self, w)
      else if op \<in> set [''move'', ''copy''] \<and> from_p = None then
        (Inl (ValueError (''Operation '' @ squote @ op @ squote @ '' requires the parameter '' @
                          squote @ ''from_p'' @ squote)), self, w)
      else
        request_retry srv self Patch url (kw\<lparr>kw_data := Some (DataDict (patch_data op path val from_p))\<rparr>) w)"

text \<open>\<open>post(url, data=d)\<close> and the like: the keyword arguments with only \<open>data\<close> given.\<close>

definition data_kwargs :: "req_data \<Rightarrow> kwargs" where
  "data_kwargs d = \<lparr>kw_headers = None, kw_data = Some d\<rparr>"

subsection \<open>The heartbeat\<close>

text \<open>
  \<open>_heartbeat\<close> runs in a thread of its own and reads the global \<open>JOB_COMPLETED\<close>, which the
  main thread writes. Its loop is modelled for that thread alone: \<open>completed k\<close> is the value
  of \<open>JOB_COMPLETED\<close> that the thread reads when it evaluates the loop condition for the
  \<open>k\<close>-th time (counting from 0). The loop may run for ever, so it takes fuel, one unit for
  each evaluation of the loop condition; \<open>None\<close> says that the fuel ran out with the loop
  still running.
\<close>

fun heartbeat_loop ::
  "nat \<Rightarrow> server \<Rightarrow> (nat \<Rightarrow> bool) \<Rightarrow> QiitaClient \<Rightarrow> string \<Rightarrow> nat \<Rightarrow> int \<Rightarrow> world \<Rightarrow>
     ((exn + unit) \<times> QiitaClient \<times> world) option" where
  "heartbeat_loop 0 srv completed qclient url k retries w = None"
| "heartbeat_loop (Suc fuel) srv completed qclient url k retries w =
     (if \<not> completed k \<and> retries > 0 then
        (case post srv qclient url (data_kwargs (DataStr '''')) w of
           (Inr j, qclient1, w1) \<Rightarrow>
             heartbeat_loop fuel srv completed qclient1 url (Suc k) 2 (sleep 30 w1)
         | (Inl e, qclient1, w1) \<Rightarrow>
             (case e of
                ConnectionError m \<Rightarrow>
                  heartbeat_loop fuel srv completed qclient1 url (Suc k) (retries - 1)
                    (sleep 30 (sleep 300 w1))
              | _ \<Rightarrow>
                  if is_QiitaClientError e then Some (Inl e, qclient1, w1)
                  else if is_Exception e then
                    Some (Inl (RuntimeError (''Error executing heartbeat: '' @ exn_str e)),
                          qclient1, w1)
                  else Some (Inl e, qclient1, w1)))
      else Some (Inr (), qclient, w))"

definition heartbeat ::
  "nat \<Rightarrow> server \<Rightarrow> (nat \<Rightarrow> bool) \<Rightarrow> QiitaClient \<Rightarrow> string \<Rightarrow> world \<Rightarrow>
     ((exn + unit) \<times> QiitaClient \<times> world) option" where
  "heartbeat fuel srv completed qclient url w =
     heartbeat_loop fuel srv completed qclient url 0 2 w"

subsection \<open>The shortcuts of QiitaClient\<close>

text \<open>
  \<open>start_heartbeat\<close> posts the first heartbeat itself and then starts the thread; the main
  flow only logs that start.
\<close>

definition start_heartbeat ::
  "server \<Rightarrow> QiitaClient \<Rightarrow> string \<Rightarrow> world \<Rightarrow> (exn + unit) \<times> QiitaClient \<times> world" where
  "start_heartbeat srv self job_id w =
     (let url = ''/qiita_db/jobs/'' @ job_id @ ''/heartbeat/'' in
      case post srv self url (data_kwargs (DataStr '''')) w of
        (Inl e, self1, w1) \<Rightarrow> (Inl e, self1, w1)
      | (Inr j, self1, w1) \<Rightarrow> (Inr (), self1, w1\<lparr>events := events w1 @ [ThreadStart url]\<rparr>))"

definition get_job_info ::
  "server \<Rightarrow> QiitaClient \<Rightarrow> string \<Rightarrow> world \<Rightarrow> (exn + json) \<times> QiitaClient \<times> world" where
  "get_job_info srv self job_id w =
     get srv self (''/qiita_db/jobs/'' @ job_id) \<lparr>kw_headers = None, kw_data = None\<rparr> w"

definition complete_job ::
  "server \<Rightarrow> QiitaClient \<Rightarrow> string \<Rightarrow> bool \<Rightarrow> string option \<Rightarrow> ArtifactInfo list option \<Rightarrow>
     world \<Rightarrow> (exn + unit) \<times> QiitaClient \<times> world" where
  "complete_job srv self job_id success error_msg artifacts_info w =
     (let w0 = w\<lparr>JOB_COMPLETED := True\<rparr>;
          json_payload = DataDumps (format_payload success error_msg artifacts_info)
      in case post srv self (''/qiita_db/jobs/'' @ job_id @ ''/complete/'')
                (data_kwargs json_payload) w0 of
           (Inl e, self1, w1) \<Rightarrow> (Inl e, self1, w1)
         | (Inr j, self1, w1) \<Rightarrow> (Inr (), self1, w1))"

section \<open>Data model of \<open>plugin.py\<close>\<close>

text \<open>
  The function of a command: called with the client, the job id, the job parameters and the
  output directory, it may talk to the server, and returns \<open>(success, artifacts_info,
  error_msg)\<close> or raises (a result that does not unpack into three values raises inside the
  same \<open>try\<close>).
\<close>

type_synonym job_result = "bool \<times> ArtifactInfo list option \<times> string option"

type_synonym job_function =
  "server \<Rightarrow> QiitaClient \<Rightarrow> string \<Rightarrow> json \<Rightarrow> string \<Rightarrow> world \<Rightarrow>
     (exn + job_result) \<times> QiitaClient \<times> world"

record QiitaCommand =
  cmd_name :: string
  cmd_description :: string
  cmd_function :: job_function
  cmd_required_parameters :: "(string \<times> string \<times> string list) list"
  cmd_optional_parameters :: "(string \<times> string \<times> string) list"
  cmd_default_parameter_sets :: "(string \<times> (string \<times> string) list) list option"

definition QiitaCommand_call :: "QiitaCommand \<Rightarrow> job_function" where
  "QiitaCommand_call self srv qclient server_url job_id output_dir w =
     cmd_function self srv qclient server_url job_id output_dir w"

text \<open>
  A plugin object is its attribute dict, the association list of the attributes assigned so
  far with their values. \<open>BaseQiitaPlugin\<close> has no data attribute of the class, and its
  methods are \<open>__init__\<close>, \<open>_register_command\<close> and \<open>__call__\<close> (\<open>_install\<close> is commented
  out), so reading any other attribute succeeds exactly when the dict has it.
\<close>

datatype attr_value = AttrStr string | AttrTasks "(string \<times> QiitaCommand) list"

type_synonym plugin_obj = "(string \<times> attr_value) list"

definition getattr :: "plugin_obj \<Rightarrow> string \<Rightarrow> exn + attr_value" where
  "getattr self a =
     (case map_of self a of
        Some v \<Rightarrow> Inr v
      | None \<Rightarrow>
          Inl (AttributeError
                 (squote @ ''BaseQiitaPlugin'' @ squote @ '' object has no attribute '' @
                  squote @ a @ squote)))"

text \<open>
  \<open>__init__\<close>; \<open>module_dir\<close> is \<open>dirname(abspath(__file__))\<close>, where the module is installed.
\<close>

definition BaseQiitaPlugin_init ::
  "string \<Rightarrow> string \<Rightarrow> string \<Rightarrow> string \<Rightarrow> string option \<Rightarrow> plugin_obj" where
  "BaseQiitaPlugin_init module_dir name version description conf_fp =
     [(''name'', AttrStr name),
      (''version'', AttrStr version),
      (''decription'', AttrStr description),
      (''conf_fp'',
         AttrStr (case conf_fp of
                    Some fp \<Rightarrow> fp
                  | None \<Rightarrow> module_dir @ ''/support_files/config_file.cfg'')),
      (''task_dict'', AttrTasks [])]"

definition register_command :: "plugin_obj \<Rightarrow> QiitaCommand \<Rightarrow> exn + plugin_obj" where
  "register_command self command =
     (case getattr self ''task_dict'' of
        Inl e \<Rightarrow> Inl e
      | Inr (AttrStr s) \<Rightarrow> Inl (TypeError ''object does not support item assignment'')
      | Inr (AttrTasks tasks) \<Rightarrow>
          Inr (AList.update ''task_dict''
                 (AttrTasks (AList.update (cmd_name command) command tasks)) self))"

text \<open>
  What \<open>__call__\<close> needs from the operating system: the options of a configuration file
  (\<open>open\<close> and \<open>readfp\<close>, with the error either raises), whether a path exists, the error
  \<open>makedirs\<close> raises if any, and the text \<open>repr(traceback.format_exception(...))\<close> of an
  exception.
\<close>

record os_env =
  read_config :: "string \<Rightarrow> exn + ((string \<times> string) \<times> string) list"
  path_exists :: "string \<Rightarrow> bool"
  makedirs_error :: "string \<Rightarrow> exn option"
  format_exception :: "exn \<Rightarrow> string"

definition config_get ::
  "((string \<times> string) \<times> string) list \<Rightarrow> string \<Rightarrow> string \<Rightarrow> exn + string" where
  "config_get config sect opt =
     (case map_of config (sect, opt) of
        Some v \<Rightarrow> Inr v
      | None \<Rightarrow> Inl (OtherException (''No option '' @ opt @ '' in section '' @ sect)))"

text \<open>\<open>self.task_dict[task_name]\<close>, with the key that \<open>job_info['command']\<close> gave.\<close>

definition lookup_task :: "plugin_obj \<Rightarrow> json \<Rightarrow> exn + string \<times> QiitaCommand" where
  "lookup_task self task_name =
     (case getattr self ''task_dict'' of
        Inl e \<Rightarrow> Inl e
      | Inr (AttrStr s) \<Rightarrow> Inl (TypeError ''string indices must be integers'')
      | Inr (AttrTasks tasks) \<Rightarrow>
          (case task_name of
             JStr s \<Rightarrow>
               (case map_of tasks s of
                  Some task \<Rightarrow> Inr (s, task)
                | None \<Rightarrow> Inl (KeyError s))
           | JArr xs \<Rightarrow> Inl (TypeError ''unhashable type'')
           | JObj kvs \<Rightarrow> Inl (TypeError ''unhashable type'')
           | JNull \<Rightarrow> Inl (KeyError ''None'')
           | JBool b \<Rightarrow> Inl (KeyError (if b then ''True'' else ''False''))
           | JNum n \<Rightarrow> Inl (KeyError (show_int n))))"

text \<open>\<open>if not exists(output_dir): makedirs(output_dir)\<close>.\<close>

definition ensure_output_dir :: "os_env \<Rightarrow> string \<Rightarrow> world \<Rightarrow> (exn + unit) \<times> world" where
  "ensure_output_dir os output_dir w =
     (if path_exists os output_dir then (Inr (), w)
      else
        (case makedirs_error os output_dir of
           Some e \<Rightarrow> (Inl e, w\<lparr>events := events w @ [MakeDirs output_dir]\<rparr>)
         | None \<Rightarrow> (Inr (), w\<lparr>events := events w @ [MakeDirs output_dir]\<rparr>)))"

text \<open>
  The \<open>try\<close> statement of \<open>__call__\<close>: the call of the task, with \<open>job_info['parameters']\<close>
  evaluated inside it, and the \<open>except Exception\<close> clause. Its value is the three variables
  \<open>success\<close>, \<open>artifacts_info\<close> and \<open>error_msg\<close>, or the exception that the clause does not
  catch.
\<close>

definition run_task ::
  "os_env \<Rightarrow> server \<Rightarrow> QiitaClient \<Rightarrow> string \<Rightarrow> json \<Rightarrow> string \<Rightarrow> QiitaCommand \<Rightarrow> string \<Rightarrow>
     world \<Rightarrow> (exn + job_result) \<times> QiitaClient \<times> world" where
  "run_task os srv qclient job_id job_info task_name task output_dir w =
     (let outcome =
            (case subscript job_info ''parameters'' of
               Inl e \<Rightarrow> (Inl e, qclient, w)
             | Inr parameters \<Rightarrow> QiitaCommand_call task srv qclient job_id parameters output_dir w)
      in case outcome of
           (Inr result, qclient1, w1) \<Rightarrow> (Inr result, qclient1, w1)
         | (Inl e, qclient1, w1) \<Rightarrow>
             if is_Exception e then
               (let exc_str = format_exception os e;
                    error_msg = ''Error executing '' @ task_name @ '':'' @ [CHR 0x0A] @ exc_str
                in (Inr (False, None, Some error_msg), qclient1, w1))
             else (Inl e, qclient1, w1))"

text \<open>The \<open>else\<close> branch of \<open>__call__\<close>, lines 138 to 159: the run of a job.\<close>

definition call_job ::
  "os_env \<Rightarrow> server \<Rightarrow> plugin_obj \<Rightarrow> QiitaClient \<Rightarrow> string \<Rightarrow> string \<Rightarrow> world \<Rightarrow>
     (exn + unit) \<times> world" where
  "call_job os srv self qclient job_id output_dir w =
     (case get_job_info srv qclient job_id w of
        (Inl e, qclient1, w1) \<Rightarrow> (Inl e, w1)
      | (Inr job_info, qclient1, w1) \<Rightarrow>
          (case start_heartbeat srv qclient1 job_id w1 of
             (Inl e, qclient2, w2) \<Rightarrow> (Inl e, w2)
           | (Inr u, qclient2, w2) \<Rightarrow>
               (case subscript job_info ''command'' of
                  Inl e \<Rightarrow> (Inl e, w2)
                | Inr command \<Rightarrow>
                    (case lookup_task self command of
                       Inl e \<Rightarrow> (Inl e, w2)
                     | Inr (task_name, task) \<Rightarrow>
                         (case ensure_output_dir os output_dir w2 of
                            (Inl e, w3) \<Rightarrow> (Inl e, w3)
                          | (Inr u, w3) \<Rightarrow>
                              (case run_task os srv qclient2 job_id job_info task_name task
                                      output_dir w3 of
                                 (Inl e, qclient4, w4) \<Rightarrow> (Inl e, w4)
                               | (Inr (success, artifacts_info, error_msg), qclient4, w4) \<Rightarrow>
                                   (case complete_job srv qclient4 job_id success error_msg
                                           artifacts_info w4 of
                                      (Inl e, qclient5, w5) \<Rightarrow> (Inl e, w5)
                                    | (Inr u, qclient5, w5) \<Rightarrow> (Inr (), w5))))))))"

text \<open>
  \<open>__call__\<close>. It reads \<open>self.onf_fp\<close> to open the configuration file. In the \<open>register\<close>
  branch it calls \<open>self._install\<close>, which the class does not define.
\<close>

definition BaseQiitaPlugin_call ::
  "os_env \<Rightarrow> server \<Rightarrow> plugin_obj \<Rightarrow> string \<Rightarrow> string \<Rightarrow> string \<Rightarrow> world \<Rightarrow>
     (exn + unit) \<times> world" where
  "BaseQiitaPlugin_call os srv self server_url job_id output_dir w =
     (case getattr self ''onf_fp'' of
        Inl e \<Rightarrow> (Inl e, w)
      | Inr (AttrTasks tasks) \<Rightarrow> (Inl (TypeError ''coercing to Unicode: need string''), w)
      | Inr (AttrStr fp) \<Rightarrow>
          (case read_config os fp of
             Inl e \<Rightarrow> (Inl e, w)
           | Inr config \<Rightarrow>
               (case config_get config ''main'' ''CLIENT_ID'' of
                  Inl e \<Rightarrow> (Inl e, w)
                | Inr client_id \<Rightarrow>
                    (case config_get config ''main'' ''CLIENT_SECRET'' of
                       Inl e \<Rightarrow> (Inl e, w)
                     | Inr client_secret \<Rightarrow>
                         (case config_get config ''main'' ''SERVER_CERT'' of
                            Inl e \<Rightarrow> (Inl e, w)
                          | Inr server_cert \<Rightarrow>
                              (case QiitaClient_init srv server_url client_id client_secret
                                      (Some server_cert) w of
                                 (Inl e, w1) \<Rightarrow> (Inl e, w1)
                               | (Inr qclient, w1) \<Rightarrow>
                                   if job_id = ''register'' then
                                     (case getattr self ''_install'' of
                                        Inl e \<Rightarrow> (Inl e, w1)
                                      | Inr v \<Rightarrow>
                                          (Inl (TypeError ''object is not callable''), w1))
                                   else call_job os srv self qclient job_id output_dir w1))))))"

section \<open>What the theorems about the transport speak of\<close>

text \<open>
  The test \<open>_request_oauth2\<close> makes on a 400 response, \<open>r_json and
  r_json['error_description'] == 'Oauth2 error: token has timed out'\<close>, where it is true.
\<close>

definition indicates_expiry :: "response \<Rightarrow> bool" where
  "indicates_expiry r =
     (case body_json r of
        None \<Rightarrow> False
      | Some j \<Rightarrow>
          truthy j \<and>
          subscript j ''error_description'' = Inr (JStr ''Oauth2 error: token has timed out''))"

text \<open>The status codes the loop of \<open>_request_retry\<close> has a branch for.\<close>

definition classified :: "response \<Rightarrow> bool" where
  "classified r = (status_code r \<in> {404, 403, 400, 200})"

text \<open>The world once one more call has been made.\<close>

definition after_call :: "world \<Rightarrow> http_call \<Rightarrow> world" where
  "after_call w c = w\<lparr>events := events w @ [Net c]\<rparr>"

text \<open>The first call \<open>_request_oauth2\<close> makes: the request with the current token.\<close>

definition first_call :: "QiitaClient \<Rightarrow> req \<Rightarrow> string \<Rightarrow> verify_arg \<Rightarrow> kwargs \<Rightarrow> http_call" where
  "first_call self rq url vfy kw = call_of rq url vfy (with_authorization (self_token self) kw)"

section \<open>Concrete inputs\<close>

definition otu_table :: ArtifactInfo where
  "otu_table =
     \<lparr>output_name = ''otu_table'', artifact_type = ''BIOM'',
      files = [(''/tmp/out/table.biom'', ''biom'')]\<rparr>"

definition otu_table_fastq :: ArtifactInfo where
  "otu_table_fastq =
     \<lparr>output_name = ''otu_table'', artifact_type = ''FASTQ'', files = []\<rparr>"

definition two_files :: ArtifactInfo where
  "two_files =
     \<lparr>output_name = ''demux'', artifact_type = ''Demultiplexed'',
      files = [(''/tmp/a.fna'', ''preprocessed_fasta''), (''/tmp/a.fastq'', ''preprocessed_fastq'')]\<rparr>"

definition two_files_swapped :: ArtifactInfo where
  "two_files_swapped =
     \<lparr>output_name = ''demux'', artifact_type = ''Demultiplexed'',
      files = [(''/tmp/a.fastq'', ''preprocessed_fastq''), (''/tmp/a.fna'', ''preprocessed_fasta'')]\<rparr>"

definition client0 :: QiitaClient where
  "client0 =
     \<lparr>self_server_url = ''https://qiita'', self_verify = VerifyTrue,
      self_client_id = ''id'', self_client_secret = ''secret'',
      self_authenticate_url = ''https://qiita/qiita_db/authenticate/'',
      self_token = JStr ''old''\<rparr>"

definition world0 :: world where
  "world0 = \<lparr>events = [], JOB_COMPLETED = False\<rparr>"

definition no_kwargs :: kwargs where
  "no_kwargs = \<lparr>kw_headers = None, kw_data = None\<rparr>"

definition expired_response :: response where
  "expired_response =
     \<lparr>status_code = 400, body_text = ''token has timed out'',
      body_json = Some (JObj [(''error'', JStr ''invalid_grant''),
                              (''error_description'', JStr ''Oauth2 error: token has timed out'')])\<rparr>"

definition bad_request_response :: response where
  "bad_request_response = \<lparr>status_code = 400, body_text = ''<html>bad</html>'', body_json = None\<rparr>"

text \<open>A 400 response whose body is a JSON object without \<open>error_description\<close>.\<close>

definition invalid_patch_response :: response where
  "invalid_patch_response =
     \<lparr>status_code = 400, body_text = ''invalid path'',
      body_json = Some (JObj [(''message'', JStr ''invalid path'')])\<rparr>"

definition token_response :: response where
  "token_response =
     \<lparr>status_code = 200, body_text = ''token'',
      body_json = Some (JObj [(''access_token'', JStr ''new'')])\<rparr>"

definition job_response :: response where
  "job_response =
     \<lparr>status_code = 200, body_text = ''job'',
      body_json = Some (JObj [(''command'', JStr ''Split libraries''),
                              (''parameters'', JObj [])])\<rparr>"

definition empty_ok_response :: response where
  "empty_ok_response = \<lparr>status_code = 200, body_text = [], body_json = None\<rparr>"

definition not_found_response :: response where
  "not_found_response = \<lparr>status_code = 404, body_text = ''no such job'', body_json = None\<rparr>"

definition forbidden_response :: response where
  "forbidden_response = \<lparr>status_code = 403, body_text = ''forbidden'', body_json = None\<rparr>"

definition unavailable_response :: response where
  "unavailable_response = \<lparr>status_code = 503, body_text = ''busy'', body_json = None\<rparr>"

text \<open>
  Servers: one that finds the token \<open>old\<close> expired and hands out the token \<open>new\<close>; one that
  finds every token expired and refuses to authenticate; one that cannot be reached; and
  servers that answer every call alike.
\<close>

definition srv_expired_once :: server where
  "srv_expired_once h c =
     (if c_url c = ''https://qiita/qiita_db/authenticate/'' then Inr token_response
      else if c_headers c = Some [(''Authorization'', Bearer (JStr ''old''))]
      then Inr expired_response
      else Inr job_response)"

definition srv_always_expired :: server where
  "srv_always_expired h c =
     (if c_url c = ''https://qiita/qiita_db/authenticate/'' then Inr token_response
      else Inr expired_response)"

definition srv_auth_rejected :: server where
  "srv_auth_rejected h c =
     (if c_url c = ''https://qiita/qiita_db/authenticate/'' then Inr forbidden_response
      else Inr expired_response)"

definition srv_unreachable :: server where
  "srv_unreachable h c = Inl (ConnectionError ''Connection refused'')"

definition srv_const :: "response \<Rightarrow> server" where
  "srv_const r h c = Inr r"

text \<open>A server that is busy at the first call and answers from the second call on.\<close>

definition srv_busy_then :: "response \<Rightarrow> server" where
  "srv_busy_then r h c = (if h = [] then Inr unavailable_response else Inr r)"



text \<open>
  What the heartbeat thread may read of the completion flag: never set, or set from the
  \<open>n\<close>-th reading on.
\<close>

definition never_completed :: "nat \<Rightarrow> bool" where
  "never_completed k = False"

definition completed_from :: "nat \<Rightarrow> nat \<Rightarrow> bool" where
  "completed_from n k = (n \<le> k)"

definition heartbeat_call :: http_call where
  "heartbeat_call =
     \<lparr>c_req = Post, c_url = ''https://qiita/qiita_db/jobs/7/heartbeat/'',
      c_headers = Some [(''Authorization'', Bearer (JStr ''old''))],
      c_verify = VerifyTrue, c_data = Some (DataStr '''')\<rparr>"

text \<open>
  A configuration file, an operating system that serves it, a plugin, a command whose
  function raises, and the calls the client \<open>client0\<close> makes for a job.
\<close>

definition config0 :: "((string \<times> string) \<times> string) list" where
  "config0 =
     [((''main'', ''CLIENT_ID''), ''id''),
      ((''main'', ''CLIENT_SECRET''), ''secret''),
      ((''main'', ''SERVER_CERT''), '''')]"

definition os0 :: os_env where
  "os0 =
     \<lparr>read_config = (\<lambda>fp. Inr config0), path_exists = (\<lambda>p. True),
      makedirs_error = (\<lambda>p. None), format_exception = exn_str\<rparr>"

definition plugin0 :: plugin_obj where
  "plugin0 = BaseQiitaPlugin_init ''/opt/plugin'' ''Target gene'' ''0.1'' ''target gene'' None"

definition failing_function :: job_function where
  "failing_function srv qclient job_id parameters output_dir w =
     (Inl (ValueError ''boom''), qclient, w)"

definition failing_command :: QiitaCommand where
  "failing_command =
     \<lparr>cmd_name = ''Split libraries'', cmd_description = ''split'',
      cmd_function = failing_function, cmd_required_parameters = [],
      cmd_optional_parameters = [], cmd_default_parameter_sets = None\<rparr>"

definition plugin1 :: plugin_obj where
  "plugin1 = AList.update ''task_dict'' (AttrTasks [(''Split libraries'', failing_command)]) plugin0"

definition job_call :: "string \<Rightarrow> http_call" where
  "job_call job_id =
     \<lparr>c_req = Get, c_url = ''https://qiita/qiita_db/jobs/'' @ job_id,
      c_headers = Some [(''Authorization'', Bearer (JStr ''old''))],
      c_verify = VerifyTrue, c_data = None\<rparr>"

definition complete_call :: "payload \<Rightarrow> http_call" where
  "complete_call p =
     \<lparr>c_req = Post, c_url = ''https://qiita/qiita_db/jobs/7/complete/'',
      c_headers = Some [(''Authorization'', Bearer (JStr ''old''))],
      c_verify = VerifyTrue, c_data = Some (DataDumps p)\<rparr>"

section \<open>The completion payload codec\<close>

lemma artifacts_dict_snoc:
  "artifacts_dict (infos @ [a]) = AList.update (output_name a) (entry_of a) (artifacts_dict infos)"
  by (simp add: artifacts_dict_def)

lemma artifacts_dict_keys: "fst ` set (artifacts_dict infos) = output_name ` set infos"
proof (induction infos rule: rev_induct)
  case Nil
  show ?case by (simp add: artifacts_dict_def)
next
  case (snoc a infos)
  then show ?case by (simp add: artifacts_dict_snoc dom_update)
qed

lemma artifacts_dict_distinct: "distinct (map fst (artifacts_dict infos))"
proof (induction infos rule: rev_induct)
  case Nil
  show ?case by (simp add: artifacts_dict_def)
next
  case (snoc a infos)
  then show ?case by (simp only: artifacts_dict_snoc distinct_update)
qed

lemma artifacts_dict_lookup:
  "map_of (artifacts_dict infos) k =
     (if filter (\<lambda>b. output_name b = k) infos = [] then None
      else Some (entry_of (last (filter (\<lambda>b. output_name b = k) infos))))"
proof (induction infos rule: rev_induct)
  case Nil
  show ?case by (simp add: artifacts_dict_def)
next
  case (snoc a infos)
  show ?case
  proof (cases "output_name a = k")
    case True
    then show ?thesis
      by (simp add: artifacts_dict_snoc update_conv')
  next
    case False
    with snoc show ?thesis
      by (simp add: artifacts_dict_snoc update_conv')
  qed
qed

lemma artifacts_dict_last:
  assumes "a \<in> set infos"
  shows "map_of (artifacts_dict infos) (output_name a) =
           Some (entry_of (last (filter (\<lambda>b. output_name b = output_name a) infos)))"
proof -
  from assms have "filter (\<lambda>b. output_name b = output_name a) infos \<noteq> []"
    by (auto simp: filter_empty_conv)
  then show ?thesis
    by (simp add: artifacts_dict_lookup)
qed

lemma filter_distinct_key:
  assumes "distinct (map f xs)" and "a \<in> set xs"
  shows "filter (\<lambda>b. f b = f a) xs = [a]"
  using assms
proof (induction xs)
  case Nil
  then show ?case by simp
next
  case (Cons x xs)
  show ?case
  proof (cases "x = a")
    case True
    from Cons.prems True have "f a \<notin> f ` set xs" by simp
    then have "\<forall>b \<in> set xs. f b \<noteq> f a" by (auto simp: image_iff)
    then have "filter (\<lambda>b. f b = f a) xs = []" by (simp add: filter_empty_conv)
    with True show ?thesis by simp
  next
    case False
    with Cons.prems have "a \<in> set xs" and "f x \<noteq> f a" by auto
    with Cons show ?thesis by simp
  qed
qed

lemma update_fresh_key:
  "k \<notin> fst ` set al \<Longrightarrow> AList.update k v al = al @ [(k, v)]"
  by (induction al) auto

lemma artifacts_dict_distinct_names:
  "distinct (map output_name infos) \<Longrightarrow>
   artifacts_dict infos =
     map (\<lambda>a. (output_name a,
                \<lparr>entry_artifact_type = artifact_type a, entry_filepaths = files a\<rparr>)) infos"
proof (induction infos rule: rev_induct)
  case Nil
  show ?case by (simp add: artifacts_dict_def)
next
  case (snoc a infos)
  from snoc.prems have "output_name a \<notin> fst ` set (artifacts_dict infos)"
    by (simp add: artifacts_dict_keys)
  with snoc show ?case
    by (simp add: artifacts_dict_snoc update_fresh_key entry_of_def)
qed

text \<open>
  C1. With \<open>success\<close> true the \<open>error\<close> field is the empty string, whatever message was
  passed; with \<open>success\<close> false the \<open>artifacts\<close> field is \<open>None\<close>, whatever artifacts were
  passed; it is \<open>None\<close> too when no artifact list or an empty one is given. With \<open>success\<close>
  true and a non-empty artifact list whose output names are pairwise distinct (the data
  model has an output name unique within a job), \<open>artifacts\<close> is the dict that has, for
  each artifact and in the order of the list, the artifact's \<open>output_name\<close> as key and
  \<open>{'artifact_type': artifact_type, 'filepaths': files}\<close> of that artifact as value: its
  keys are exactly the output names, and looking up an artifact's output name gives that
  artifact's type and file list.
\<close>

theorem format_payload_fields:
  "(success \<longrightarrow> p_error (format_payload success error_msg artifacts_info) = Some '''') \<and>
   (\<not> success \<longrightarrow> p_artifacts (format_payload success error_msg artifacts_info) = None) \<and>
   (artifacts_info = None \<or> artifacts_info = Some [] \<longrightarrow>
      p_artifacts (format_payload success error_msg artifacts_info) = None) \<and>
   (success \<and> artifacts_info = Some infos \<and> infos \<noteq> [] \<and>
    distinct (map output_name infos) \<longrightarrow>
      p_artifacts (format_payload success error_msg artifacts_info) =
        Some (map (\<lambda>a. (output_name a,
                         \<lparr>entry_artifact_type = artifact_type a, entry_filepaths = files a\<rparr>))
                infos) \<and>
      (\<exists>d. p_artifacts (format_payload success error_msg artifacts_info) = Some d \<and>
           fst ` set d = output_name ` set infos \<and>
           (\<forall>a \<in> set infos.
              map_of d (output_name a) =
                Some \<lparr>entry_artifact_type = artifact_type a, entry_filepaths = files a\<rparr>)))"
  (is "(_ \<longrightarrow> ?E) \<and> (_ \<longrightarrow> ?N) \<and> (?none \<longrightarrow> ?N) \<and> (?given \<longrightarrow> ?M \<and> ?L)")
proof (intro conjI impI)
  assume "success"
  then show ?E by (simp add: format_payload_def)
next
  assume "\<not> success"
  then show ?N by (simp add: format_payload_def split: option.splits)
next
  assume ?none
  then show ?N by (auto simp: format_payload_def)
next
  assume h: ?given
  then have d: "p_artifacts (format_payload success error_msg artifacts_info) =
      Some (artifacts_dict infos)"
    by (simp add: format_payload_def)
  with h show ?M by (simp add: artifacts_dict_distinct_names)
  from h have "\<forall>a \<in> set infos.
      map_of (artifacts_dict infos) (output_name a) =
        Some \<lparr>entry_artifact_type = artifact_type a, entry_filepaths = files a\<rparr>"
    by (simp add: artifacts_dict_last filter_distinct_key entry_of_def)
  with d show ?L by (simp add: artifacts_dict_keys)
qed

theorem format_payload_fields_witness:
  "p_error (format_payload True (Some ''ignored'') (Some [otu_table, two_files])) = Some '''' \<and>
   p_artifacts (format_payload False (Some ''boom'') (Some [otu_table, two_files])) = None \<and>
   p_artifacts (format_payload True None (Some [])) = None \<and>
   p_artifacts (format_payload True None (Some [otu_table, two_files])) =
     Some [(''otu_table'',
            \<lparr>entry_artifact_type = ''BIOM'',
             entry_filepaths = [(''/tmp/out/table.biom'', ''biom'')]\<rparr>),
           (''demux'',
            \<lparr>entry_artifact_type = ''Demultiplexed'',
             entry_filepaths = [(''/tmp/a.fna'', ''preprocessed_fasta''),
                                (''/tmp/a.fastq'', ''preprocessed_fastq'')]\<rparr>)]"
proof -
  have names: "distinct (map output_name [otu_table, two_files])"
    by (simp add: otu_table_def two_files_def)
  from format_payload_fields [of True "Some ''ignored''" "Some [otu_table, two_files]"
      "[otu_table, two_files]"]
  have a: "p_error (format_payload True (Some ''ignored'') (Some [otu_table, two_files])) =
      Some ''''"
    by simp
  from format_payload_fields [of False "Some ''boom''" "Some [otu_table, two_files]" "[]"]
  have b: "p_artifacts (format_payload False (Some ''boom'') (Some [otu_table, two_files])) = None"
    by simp
  from format_payload_fields [of True None "Some []" "[]"]
  have c: "p_artifacts (format_payload True None (Some [])) = None"
    by simp
  from format_payload_fields [of True None "Some [otu_table, two_files]"
      "[otu_table, two_files]"] names
  have d: "p_artifacts (format_payload True None (Some [otu_table, two_files])) =
      Some (map (\<lambda>a. (output_name a,
                       \<lparr>entry_artifact_type = artifact_type a, entry_filepaths = files a\<rparr>))
              [otu_table, two_files])"
    by simp
  from a b c d show ?thesis
    by (simp add: otu_table_def two_files_def)
qed

text \<open>
  Outside the data model, with two artifacts of the same output name, the later store of the
  dict comprehension replaces the earlier one.
\<close>

lemma format_payload_duplicate_names:
  "p_artifacts (format_payload True None (Some [otu_table, otu_table_fastq])) =
     Some [(''otu_table'', \<lparr>entry_artifact_type = ''FASTQ'', entry_filepaths = []\<rparr>)]"
  by (simp add: format_payload_def artifacts_dict_def entry_of_def otu_table_def
      otu_table_fastq_def)

text \<open>
  C10. When \<open>success\<close> is false and no error message is given (\<open>error_msg\<close> is \<open>None\<close>), the
  \<open>error\<close> field of the payload is \<open>None\<close>, not a string.
\<close>

theorem format_payload_error_none:
  "p_error (format_payload False None artifacts_info) = None"
  by (simp add: format_payload_def)

theorem format_payload_error_none_witness:
  "p_error (format_payload False None (Some [otu_table])) = None \<and>
   p_error (format_payload False None (Some [otu_table])) \<noteq> Some ''''"
  using format_payload_error_none [of "Some [otu_table]"] by simp

section \<open>ArtifactInfo equality\<close>

text \<open>
  C8. Two \<open>ArtifactInfo\<close> instances are equal exactly when they have the same output name,
  the same artifact type and the same set of (filepath, filetype) pairs, whatever the order
  of the file lists; \<open>__ne__\<close> is the negation of \<open>__eq__\<close>.
\<close>

theorem ArtifactInfo_eq_iff:
  "(ArtifactInfo_eq a (ArtifactInfoObj b) \<longleftrightarrow>
      output_name a = output_name b \<and> artifact_type a = artifact_type b \<and>
      set (files a) = set (files b)) \<and>
   (ArtifactInfo_ne a other \<longleftrightarrow> \<not> ArtifactInfo_eq a other)"
  by (simp add: ArtifactInfo_eq_def ArtifactInfo_ne_def)

theorem ArtifactInfo_eq_iff_witness:
  "ArtifactInfo_eq two_files (ArtifactInfoObj two_files_swapped) \<and>
   files two_files \<noteq> files two_files_swapped \<and>
   \<not> ArtifactInfo_ne two_files (ArtifactInfoObj two_files_swapped) \<and>
   \<not> ArtifactInfo_eq otu_table (ArtifactInfoObj otu_table_fastq) \<and>
   ArtifactInfo_ne otu_table (ArtifactInfoObj otu_table_fastq)"
  using ArtifactInfo_eq_iff [of two_files two_files_swapped "ArtifactInfoObj two_files_swapped"]
    ArtifactInfo_eq_iff [of otu_table otu_table_fastq "ArtifactInfoObj otu_table_fastq"]
  by (auto simp: two_files_def two_files_swapped_def otu_table_def otu_table_fastq_def)

section \<open>The transport: one request with token refresh\<close>

lemma fetch_token_world:
  "fetch_token srv self w = (res, self2, w2) \<Longrightarrow> w2 = after_call w (auth_call self)"
  by (auto simp: fetch_token_def send_def after_call_def split: sum.splits if_splits option.splits)

lemma fetch_token_failed_client:
  "fetch_token srv self w = (Inl e, self2, w2) \<Longrightarrow> self2 = self"
  by (auto simp: fetch_token_def send_def split: sum.splits if_splits option.splits)

lemma fetch_token_new_token:
  "fetch_token srv self w = (Inr u, self2, w2) \<Longrightarrow> self2 = self\<lparr>self_token := self_token self2\<rparr>"
  by (auto simp: fetch_token_def send_def split: sum.splits if_splits option.splits)

lemma with_authorization_again:
  "with_authorization t2 (with_authorization t1 kw) = with_authorization t2 kw"
  by (simp add: with_authorization_def)

lemma request_oauth2_first_raises:
  "srv (events w) (first_call self rq url vfy kw) = Inl e \<Longrightarrow>
   request_oauth2 srv self rq url vfy kw w = (Inl e, self, after_call w (first_call self rq url vfy kw))"
  by (simp add: request_oauth2_def first_call_def send_def after_call_def)

lemma request_oauth2_not_400:
  "srv (events w) (first_call self rq url vfy kw) = Inr r \<Longrightarrow> status_code r \<noteq> 400 \<Longrightarrow>
   request_oauth2 srv self rq url vfy kw w = (Inr r, self, after_call w (first_call self rq url vfy kw))"
  by (simp add: request_oauth2_def first_call_def send_def after_call_def)

lemma request_oauth2_400_plain:
  "srv (events w) (first_call self rq url vfy kw) = Inr r \<Longrightarrow> status_code r = 400 \<Longrightarrow>
   \<not> indicates_expiry r \<Longrightarrow>
   \<exists>res. request_oauth2 srv self rq url vfy kw w = (res, self, after_call w (first_call self rq url vfy kw))"
  by (auto simp: request_oauth2_def first_call_def send_def after_call_def indicates_expiry_def Let_def
      split: option.splits sum.splits)

lemma request_oauth2_400_expired:
  "srv (events w) (first_call self rq url vfy kw) = Inr r \<Longrightarrow> status_code r = 400 \<Longrightarrow>
   indicates_expiry r \<Longrightarrow>
   request_oauth2 srv self rq url vfy kw w =
     (case fetch_token srv self (after_call w (first_call self rq url vfy kw)) of
        (Inl e, self2, w2) \<Rightarrow> (Inl e, self2, w2)
      | (Inr u, self2, w2) \<Rightarrow>
          (srv (events w2) (first_call self2 rq url vfy kw), self2,
           after_call w2 (first_call self2 rq url vfy kw)))"
  by (auto simp: request_oauth2_def first_call_def send_def after_call_def indicates_expiry_def Let_def
      with_authorization_again
      split: option.splits sum.splits prod.splits)


lemma request_oauth2_sends_first:
  "\<exists>rest. events (snd (snd (request_oauth2 srv self rq url vfy kw w))) =
            events w @ Net (first_call self rq url vfy kw) # rest"
  by (auto simp: request_oauth2_def first_call_def send_def Let_def fetch_token_def
      split: option.splits sum.splits prod.splits)

lemma request_retry_loop_done:
  "\<not> 0 < retries \<Longrightarrow>
   request_retry_loop srv self rq url kw retries prev w =
     (case prev of
        None \<Rightarrow>
          (Inl (UnboundLocalError ''local variable r referenced before assignment''), self, w)
      | Some r0 \<Rightarrow> (Inl (RuntimeError (request_failed_message rq url r0)), self, w))"
  by (subst request_retry_loop.simps) simp

lemma request_retry_loop_raises:
  "0 < retries \<Longrightarrow>
   request_oauth2 srv self rq url (self_verify self) kw w = (Inl e, self1, w1) \<Longrightarrow>
   request_retry_loop srv self rq url kw retries prev w = (Inl e, self1, w1)"
  by (subst request_retry_loop.simps) simp

lemma request_retry_loop_response:
  "0 < retries \<Longrightarrow>
   request_oauth2 srv self rq url (self_verify self) kw w = (Inr r, self1, w1) \<Longrightarrow>
   request_retry_loop srv self rq url kw retries prev w =
     (if status_code r = 404 then (Inl (NotFoundError (body_text r)), self1, w1)
      else if status_code r = 403 then (Inl (ForbiddenError (body_text r)), self1, w1)
      else if status_code r = 400 then (Inl (BadRequestError (body_text r)), self1, w1)
      else if status_code r = 200 then
        (Inr (case body_json r of Some j \<Rightarrow> j | None \<Rightarrow> JNull), self1, w1)
      else request_retry_loop srv self1 rq url kw (retries - 1) (Some r) w1)"
  by (subst request_retry_loop.simps) simp

lemma request_retry_loop_extends:
  "\<exists>rest. events (snd (snd (request_retry_loop srv self rq url kw retries prev w))) =
            events w @ rest"
proof (induction srv self rq url kw retries prev w rule: request_retry_loop.induct)
  case (1 srv self rq url kw retries r w)
  show ?case
  proof (cases "0 < retries")
    case False
    then show ?thesis
      by (simp add: request_retry_loop_done split: option.splits)
  next
    case True
    obtain res self1 w1 where o: "request_oauth2 srv self rq url (self_verify self) kw w = (res, self1, w1)"
      by (cases "request_oauth2 srv self rq url (self_verify self) kw w") auto
    from request_oauth2_sends_first [of srv self rq url "self_verify self" kw w] o
    obtain rest1 where w1: "events w1 = events w @ rest1" by auto
    show ?thesis
    proof (cases res)
      case (Inl e)
      with True o w1 show ?thesis by (simp add: request_retry_loop_raises)
    next
      case (Inr r1)
      show ?thesis
      proof (cases "classified r1")
        case True
        with \<open>0 < retries\<close> o Inr w1 show ?thesis
          by (auto simp: request_retry_loop_response classified_def)
      next
        case False
        with \<open>0 < retries\<close> o Inr
        have step: "request_retry_loop srv self rq url kw retries r w =
            request_retry_loop srv self1 rq url kw (retries - 1) (Some r1) w1"
          by (simp add: request_retry_loop_response classified_def)
        from False have "status_code r1 \<noteq> 404" "status_code r1 \<noteq> 403" "status_code r1 \<noteq> 400"
          "status_code r1 \<noteq> 200" by (auto simp: classified_def)
        with "1.IH" [of res "(self1, w1)" r1 self1 w1] \<open>0 < retries\<close> o Inr
        obtain rest2 where "events (snd (snd (request_retry_loop srv self1 rq url kw (retries - 1) (Some r1) w1))) = events w1 @ rest2"
          by auto
        with step w1 show ?thesis by simp
      qed
    qed
  qed
qed

text \<open>
  C2, as the code has it. A 400 response whose parsed body indicates that the token has
  expired triggers exactly one call of \<open>_fetch_token\<close>. When that re-authentication
  succeeds, the same request is sent exactly once more, with the new token, and its outcome
  is the result whatever it is (also a second 400 of the same kind: nothing more is
  refreshed or sent). When the re-authentication fails, its error propagates and nothing is
  sent again. A 400 response without such a body (one that is not JSON included) triggers
  no re-authentication: the first call stays the only one.
\<close>

theorem request_oauth2_refresh:
  assumes "srv (events w) (first_call self rq url vfy kw) = Inr r"
    and "status_code r = 400"
  shows
    "(indicates_expiry r \<and>
      fetch_token srv self (after_call w (first_call self rq url vfy kw)) = (Inr u, self2, w2) \<longrightarrow>
        w2 = after_call (after_call w (first_call self rq url vfy kw)) (auth_call self) \<and>
        self2 = self\<lparr>self_token := self_token self2\<rparr> \<and>
        request_oauth2 srv self rq url vfy kw w =
          (srv (events w2) (first_call self2 rq url vfy kw), self2,
           after_call w2 (first_call self2 rq url vfy kw))) \<and>
     (indicates_expiry r \<and>
      fetch_token srv self (after_call w (first_call self rq url vfy kw)) = (Inl e, self2, w2) \<longrightarrow>
        w2 = after_call (after_call w (first_call self rq url vfy kw)) (auth_call self) \<and>
        request_oauth2 srv self rq url vfy kw w = (Inl e, self, w2)) \<and>
     (\<not> indicates_expiry r \<longrightarrow>
        (\<exists>res. request_oauth2 srv self rq url vfy kw w =
                 (res, self, after_call w (first_call self rq url vfy kw))))"
proof (intro conjI impI)
  assume h: "indicates_expiry r \<and>
    fetch_token srv self (after_call w (first_call self rq url vfy kw)) = (Inr u, self2, w2)"
  then show "w2 = after_call (after_call w (first_call self rq url vfy kw)) (auth_call self)"
    by (blast dest: fetch_token_world)
  from h show "self2 = self\<lparr>self_token := self_token self2\<rparr>"
    by (blast intro: fetch_token_new_token)
  from h assms show "request_oauth2 srv self rq url vfy kw w =
      (srv (events w2) (first_call self2 rq url vfy kw), self2,
       after_call w2 (first_call self2 rq url vfy kw))"
    by (simp add: request_oauth2_400_expired)
next
  assume h: "indicates_expiry r \<and>
    fetch_token srv self (after_call w (first_call self rq url vfy kw)) = (Inl e, self2, w2)"
  then show "w2 = after_call (after_call w (first_call self rq url vfy kw)) (auth_call self)"
    by (blast dest: fetch_token_world)
  from h have "self2 = self" by (blast intro: fetch_token_failed_client)
  with h assms show "request_oauth2 srv self rq url vfy kw w = (Inl e, self, w2)"
    by (simp add: request_oauth2_400_expired)
next
  assume "\<not> indicates_expiry r"
  with assms show "\<exists>res. request_oauth2 srv self rq url vfy kw w =
      (res, self, after_call w (first_call self rq url vfy kw))"
    by (rule request_oauth2_400_plain)
qed

lemma first_call_client0:
  "first_call client0 Get u VerifyTrue no_kwargs =
     \<lparr>c_req = Get, c_url = u, c_headers = Some [(''Authorization'', Bearer (JStr ''old''))],
      c_verify = VerifyTrue, c_data = None\<rparr>"
  by (simp add: first_call_def call_of_def with_authorization_def client0_def no_kwargs_def)

lemma expired_response_expiry: "indicates_expiry expired_response"
  by (simp add: indicates_expiry_def expired_response_def)

lemma fetch_token_expired_once:
  "fetch_token srv_expired_once client0 w =
     (Inr (), client0\<lparr>self_token := JStr ''new''\<rparr>, after_call w (auth_call client0))"
  by (simp add: fetch_token_def send_def auth_call_def client0_def srv_expired_once_def
      token_response_def after_call_def)

lemma fetch_token_auth_rejected:
  "fetch_token srv_auth_rejected client0 w =
     (Inl (ValueError (''Can'' @ squote @ ''t authenticate with the Qiita server'')), client0,
      after_call w (auth_call client0))"
  by (simp add: fetch_token_def send_def auth_call_def client0_def srv_auth_rejected_def
      forbidden_response_def after_call_def)

theorem request_oauth2_refresh_witness:
  "request_oauth2 srv_expired_once client0 Get ''https://qiita/qiita_db/jobs/7'' VerifyTrue
     no_kwargs world0 =
     (Inr job_response, client0\<lparr>self_token := JStr ''new''\<rparr>,
      \<lparr>events =
         [Net (first_call client0 Get ''https://qiita/qiita_db/jobs/7'' VerifyTrue no_kwargs),
          Net (auth_call client0),
          Net (first_call (client0\<lparr>self_token := JStr ''new''\<rparr>) Get
                 ''https://qiita/qiita_db/jobs/7'' VerifyTrue no_kwargs)],
       JOB_COMPLETED = False\<rparr>) \<and>
   request_oauth2 (srv_const bad_request_response) client0 Get ''https://qiita/qiita_db/jobs/7''
     VerifyTrue no_kwargs world0 =
     (Inr bad_request_response, client0,
      \<lparr>events =
         [Net (first_call client0 Get ''https://qiita/qiita_db/jobs/7'' VerifyTrue no_kwargs)],
       JOB_COMPLETED = False\<rparr>)"
proof -
  let ?u = "''https://qiita/qiita_db/jobs/7''"
  let ?c = "first_call client0 Get ?u VerifyTrue no_kwargs"
  have first: "srv_expired_once (events world0) ?c = Inr expired_response"
    by (simp add: first_call_client0 srv_expired_once_def)
  have bad: "status_code expired_response = 400"
    by (simp add: expired_response_def)
  have again: "srv_expired_once h
      (first_call (client0\<lparr>self_token := JStr ''new''\<rparr>) Get ?u VerifyTrue no_kwargs) =
      Inr job_response" for h
    by (simp add: first_call_def call_of_def with_authorization_def no_kwargs_def
        srv_expired_once_def)
  from request_oauth2_refresh [where srv = srv_expired_once and w = world0 and self = client0
      and rq = Get and url = ?u and vfy = VerifyTrue and kw = no_kwargs and r = expired_response
      and u = "()" and ?self2.0 = "client0\<lparr>self_token := JStr ''new''\<rparr>"
      and ?w2.0 = "after_call (after_call world0 ?c) (auth_call client0)", OF first bad]
    expired_response_expiry fetch_token_expired_once [of "after_call world0 ?c"]
  have a: "request_oauth2 srv_expired_once client0 Get ?u VerifyTrue no_kwargs world0 =
      (Inr job_response, client0\<lparr>self_token := JStr ''new''\<rparr>,
       after_call (after_call (after_call world0 ?c) (auth_call client0))
         (first_call (client0\<lparr>self_token := JStr ''new''\<rparr>) Get ?u VerifyTrue no_kwargs))"
    by (simp add: again)
  have first': "srv_const bad_request_response (events world0) ?c = Inr bad_request_response"
    by (simp add: srv_const_def)
  have bad': "status_code bad_request_response = 400"
    by (simp add: bad_request_response_def)
  have plain: "\<not> indicates_expiry bad_request_response"
    by (simp add: indicates_expiry_def bad_request_response_def)
  from request_oauth2_refresh [where srv = "srv_const bad_request_response" and w = world0
      and self = client0 and rq = Get and url = ?u and vfy = VerifyTrue and kw = no_kwargs
      and r = bad_request_response, OF first' bad'] plain
  obtain res where b: "request_oauth2 (srv_const bad_request_response) client0 Get ?u VerifyTrue
      no_kwargs world0 = (res, client0, after_call world0 ?c)"
    by blast
  have "res = Inr bad_request_response"
    using b
    by (simp add: request_oauth2_def first_call_def send_def srv_const_def Let_def
        bad_request_response_def)
  with a b show ?thesis
    by (simp add: after_call_def world0_def)
qed

text \<open>
  C2 as the claim words it (exactly one resend after every 400 response that indicates
  expiry) fails when the server refuses the re-authentication: \<open>_fetch_token\<close> raises and
  the request is not sent again.
\<close>

theorem request_oauth2_refresh_rejected:
  "srv_auth_rejected (events world0)
     (first_call client0 Get ''https://qiita/qiita_db/jobs/7'' VerifyTrue no_kwargs) =
     Inr expired_response \<and>
   status_code expired_response = 400 \<and>
   indicates_expiry expired_response \<and>
   request_oauth2 srv_auth_rejected client0 Get ''https://qiita/qiita_db/jobs/7'' VerifyTrue
     no_kwargs world0 =
     (Inl (ValueError (''Can'' @ squote @ ''t authenticate with the Qiita server'')), client0,
      \<lparr>events =
         [Net (first_call client0 Get ''https://qiita/qiita_db/jobs/7'' VerifyTrue no_kwargs),
          Net (auth_call client0)],
       JOB_COMPLETED = False\<rparr>)"
proof -
  let ?u = "''https://qiita/qiita_db/jobs/7''"
  let ?c = "first_call client0 Get ?u VerifyTrue no_kwargs"
  have first: "srv_auth_rejected (events world0) ?c = Inr expired_response"
    by (simp add: first_call_client0 srv_auth_rejected_def)
  have bad: "status_code expired_response = 400"
    by (simp add: expired_response_def)
  from request_oauth2_400_expired [where srv = srv_auth_rejected and w = world0
      and self = client0 and rq = Get and url = ?u and vfy = VerifyTrue and kw = no_kwargs
      and r = expired_response, OF first bad expired_response_expiry]
  have "request_oauth2 srv_auth_rejected client0 Get ?u VerifyTrue no_kwargs world0 =
      (Inl (ValueError (''Can'' @ squote @ ''t authenticate with the Qiita server'')), client0,
       after_call (after_call world0 ?c) (auth_call client0))"
    by (simp add: fetch_token_auth_rejected)
  with first bad expired_response_expiry show ?thesis
    by (simp add: after_call_def world0_def)
qed

section \<open>The transport: the retry loop\<close>

lemma unclassified_codes:
  "\<not> classified r \<Longrightarrow>
   status_code r \<noteq> 404 \<and> status_code r \<noteq> 403 \<and> status_code r \<noteq> 400 \<and> status_code r \<noteq> 200"
  by (simp add: classified_def)

lemma request_retry_loop_unclassified:
  assumes "0 < retries"
    and "srv (events w) (first_call self rq url (self_verify self) kw) = Inr r"
    and "\<not> classified r"
  shows "request_retry_loop srv self rq url kw retries prev w =
         request_retry_loop srv self rq url kw (retries - 1) (Some r)
           (after_call w (first_call self rq url (self_verify self) kw))"
proof -
  from assms(3) have codes: "status_code r \<noteq> 404" "status_code r \<noteq> 403"
    "status_code r \<noteq> 400" "status_code r \<noteq> 200"
    by (simp_all add: classified_def)
  from assms(2) codes(3)
  have "request_oauth2 srv self rq url (self_verify self) kw w =
      (Inr r, self, after_call w (first_call self rq url (self_verify self) kw))"
    by (rule request_oauth2_not_400)
  from request_retry_loop_response [OF assms(1) this] codes show ?thesis by simp
qed

lemma request_retry_loop_first_raises:
  assumes "0 < retries"
    and "srv (events w) (first_call self rq url (self_verify self) kw) = Inl e"
  shows "request_retry_loop srv self rq url kw retries prev w =
         (Inl e, self, after_call w (first_call self rq url (self_verify self) kw))"
  using assms by (simp add: request_retry_loop_raises request_oauth2_first_raises)





text \<open>
  The classification itself. Every transport call runs the loop of \<open>_request_retry\<close>, and in
  every pass of that loop in which \<open>_request_oauth2\<close> returns a response (the resent one
  after a token refresh), the response is classified by its status: 404 ends the call with
  \<open>NotFoundError\<close>, 403 with \<open>ForbiddenError\<close>, 400 with \<open>BadRequestError\<close>, each carrying
  the response text and each without another attempt (the state is the one right after that
  exchange); 200 ends it with the parsed JSON body, or with \<open>None\<close> when the body is absent
  or does not parse.
\<close>

theorem request_retry_classifies:
  assumes "0 < retries"
    and "request_oauth2 srv self rq url (self_verify self) kw w = (Inr r, self1, w1)"
  shows
    "request_retry srv self rq path kw w =
       request_retry_loop srv self rq (self_server_url self @ path) kw 2 None w \<and>
     (status_code r = 404 \<longrightarrow>
        request_retry_loop srv self rq url kw retries prev w =
          (Inl (NotFoundError (body_text r)), self1, w1)) \<and>
     (status_code r = 403 \<longrightarrow>
        request_retry_loop srv self rq url kw retries prev w =
          (Inl (ForbiddenError (body_text r)), self1, w1)) \<and>
     (status_code r = 400 \<longrightarrow>
        request_retry_loop srv self rq url kw retries prev w =
          (Inl (BadRequestError (body_text r)), self1, w1)) \<and>
     (status_code r = 200 \<longrightarrow>
        request_retry_loop srv self rq url kw retries prev w =
          (Inr (case body_json r of Some j \<Rightarrow> j | None \<Rightarrow> JNull), self1, w1))"
  using request_retry_loop_response [OF assms, of prev]
  by (simp add: request_retry_def)

lemma request_oauth2_always_expired:
  "request_oauth2 srv_always_expired client0 Get ''https://qiita/qiita_db/jobs/7'' VerifyTrue
     no_kwargs world0 =
     (Inr expired_response, client0\<lparr>self_token := JStr ''new''\<rparr>,
      \<lparr>events =
         [Net (first_call client0 Get ''https://qiita/qiita_db/jobs/7'' VerifyTrue no_kwargs),
          Net (auth_call client0),
          Net (first_call (client0\<lparr>self_token := JStr ''new''\<rparr>) Get
                 ''https://qiita/qiita_db/jobs/7'' VerifyTrue no_kwargs)],
       JOB_COMPLETED = False\<rparr>)"
proof -
  let ?u = "''https://qiita/qiita_db/jobs/7''"
  have first: "srv_always_expired (events world0) (first_call client0 Get ?u VerifyTrue no_kwargs) =
      Inr expired_response"
    by (simp add: first_call_client0 srv_always_expired_def)
  have bad: "status_code expired_response = 400"
    by (simp add: expired_response_def)
  have tok: "fetch_token srv_always_expired client0 w =
      (Inr (), client0\<lparr>self_token := JStr ''new''\<rparr>, after_call w (auth_call client0))" for w
    by (simp add: fetch_token_def send_def auth_call_def client0_def srv_always_expired_def
        token_response_def after_call_def)
  have again: "srv_always_expired h
      (first_call (client0\<lparr>self_token := JStr ''new''\<rparr>) Get ?u VerifyTrue no_kwargs) =
      Inr expired_response" for h
    by (simp add: first_call_def call_of_def with_authorization_def no_kwargs_def
        srv_always_expired_def)
  from request_oauth2_400_expired [where srv = srv_always_expired and w = world0
      and self = client0 and rq = Get and url = ?u and vfy = VerifyTrue and kw = no_kwargs
      and r = expired_response, OF first bad expired_response_expiry]
  show ?thesis
    by (simp add: tok again after_call_def world0_def)
qed

theorem request_retry_classifies_witness:
  "get (srv_const not_found_response) client0 ''/qiita_db/jobs/7'' no_kwargs world0 =
     (Inl (NotFoundError ''no such job''), client0,
      \<lparr>events =
         [Net (first_call client0 Get ''https://qiita/qiita_db/jobs/7'' VerifyTrue no_kwargs)],
       JOB_COMPLETED = False\<rparr>) \<and>
   get (srv_const forbidden_response) client0 ''/qiita_db/jobs/7'' no_kwargs world0 =
     (Inl (ForbiddenError ''forbidden''), client0,
      \<lparr>events =
         [Net (first_call client0 Get ''https://qiita/qiita_db/jobs/7'' VerifyTrue no_kwargs)],
       JOB_COMPLETED = False\<rparr>) \<and>
   get srv_always_expired client0 ''/qiita_db/jobs/7'' no_kwargs world0 =
     (Inl (BadRequestError ''token has timed out''), client0\<lparr>self_token := JStr ''new''\<rparr>,
      \<lparr>events =
         [Net (first_call client0 Get ''https://qiita/qiita_db/jobs/7'' VerifyTrue no_kwargs),
          Net (auth_call client0),
          Net (first_call (client0\<lparr>self_token := JStr ''new''\<rparr>) Get
                 ''https://qiita/qiita_db/jobs/7'' VerifyTrue no_kwargs)],
       JOB_COMPLETED = False\<rparr>) \<and>
   get (srv_busy_then empty_ok_response) client0 ''/qiita_db/jobs/7'' no_kwargs world0 =
     (Inr JNull, client0,
      \<lparr>events =
         [Net (first_call client0 Get ''https://qiita/qiita_db/jobs/7'' VerifyTrue no_kwargs),
          Net (first_call client0 Get ''https://qiita/qiita_db/jobs/7'' VerifyTrue no_kwargs)],
       JOB_COMPLETED = False\<rparr>)"
proof -
  let ?u = "''https://qiita/qiita_db/jobs/7''"
  let ?c = "first_call client0 Get ?u VerifyTrue no_kwargs"
  have u: "self_server_url client0 @ ''/qiita_db/jobs/7'' = ?u"
    and v: "self_verify client0 = VerifyTrue"
    by (simp_all add: client0_def)
  have two: "(0::int) < 2" and one: "(0::int) < 1" by simp_all
  have o1: "request_oauth2 (srv_const not_found_response) client0 Get ?u (self_verify client0)
      no_kwargs world0 = (Inr not_found_response, client0, after_call world0 ?c)"
    by (simp add: v request_oauth2_not_400 srv_const_def not_found_response_def)
  from request_retry_classifies [OF two o1, of "''/qiita_db/jobs/7''" None]
  have a: "get (srv_const not_found_response) client0 ''/qiita_db/jobs/7'' no_kwargs world0 =
      (Inl (NotFoundError ''no such job''), client0, after_call world0 ?c)"
    by (simp add: get_def u not_found_response_def)
  have o2: "request_oauth2 (srv_const forbidden_response) client0 Get ?u (self_verify client0)
      no_kwargs world0 = (Inr forbidden_response, client0, after_call world0 ?c)"
    by (simp add: v request_oauth2_not_400 srv_const_def forbidden_response_def)
  from request_retry_classifies [OF two o2, of "''/qiita_db/jobs/7''" None]
  have b: "get (srv_const forbidden_response) client0 ''/qiita_db/jobs/7'' no_kwargs world0 =
      (Inl (ForbiddenError ''forbidden''), client0, after_call world0 ?c)"
    by (simp add: get_def u forbidden_response_def)
  from request_oauth2_always_expired
  have o3: "request_oauth2 srv_always_expired client0 Get ?u (self_verify client0) no_kwargs
      world0 =
      (Inr expired_response, client0\<lparr>self_token := JStr ''new''\<rparr>,
       \<lparr>events =
          [Net ?c, Net (auth_call client0),
           Net (first_call (client0\<lparr>self_token := JStr ''new''\<rparr>) Get ?u VerifyTrue no_kwargs)],
        JOB_COMPLETED = False\<rparr>)"
    by (simp add: v)
  from request_retry_classifies [OF two o3, of "''/qiita_db/jobs/7''" None]
  have c: "get srv_always_expired client0 ''/qiita_db/jobs/7'' no_kwargs world0 =
      (Inl (BadRequestError ''token has timed out''), client0\<lparr>self_token := JStr ''new''\<rparr>,
       \<lparr>events =
          [Net ?c, Net (auth_call client0),
           Net (first_call (client0\<lparr>self_token := JStr ''new''\<rparr>) Get ?u VerifyTrue no_kwargs)],
        JOB_COMPLETED = False\<rparr>)"
    by (simp add: get_def u expired_response_def)
  have busy: "\<not> classified unavailable_response"
    by (simp add: classified_def unavailable_response_def)
  have first: "srv_busy_then empty_ok_response (events world0)
      (first_call client0 Get ?u (self_verify client0) no_kwargs) = Inr unavailable_response"
    by (simp add: srv_busy_then_def world0_def)
  have o4: "request_oauth2 (srv_busy_then empty_ok_response) client0 Get ?u (self_verify client0)
      no_kwargs (after_call world0 ?c) =
      (Inr empty_ok_response, client0, after_call (after_call world0 ?c) ?c)"
    by (simp add: v request_oauth2_not_400 srv_busy_then_def empty_ok_response_def
        after_call_def)
  from request_retry_classifies [OF one o4, of "''/qiita_db/jobs/7''" "Some unavailable_response"]
    request_retry_loop_unclassified [where srv = "srv_busy_then empty_ok_response"
      and w = world0 and self = client0 and rq = Get and url = ?u and kw = no_kwargs
      and r = unavailable_response and prev = None, OF two first busy]
  have d: "get (srv_busy_then empty_ok_response) client0 ''/qiita_db/jobs/7'' no_kwargs world0 =
      (Inr JNull, client0, after_call (after_call world0 ?c) ?c)"
    by (simp add: get_def request_retry_def u v empty_ok_response_def)
  from a b c d show ?thesis
    by (simp add: after_call_def world0_def)
qed

text \<open>
  C5, at a 400 response whose body is a JSON object without the member
  \<open>error_description\<close>: \<open>_request_oauth2\<close> subscripts the parsed body with that key before
  \<open>_request_retry\<close> sees the response, so the call ends with \<open>KeyError\<close> where the claim
  (and the docstring of \<open>_request_retry\<close>) has \<open>BadRequestError\<close>.
\<close>

theorem get_bad_request_key_error:
  "get (srv_const invalid_patch_response) client0 ''/qiita_db/jobs/7'' no_kwargs world0 =
     (Inl (KeyError ''error_description''), client0,
      \<lparr>events =
         [Net (first_call client0 Get ''https://qiita/qiita_db/jobs/7'' VerifyTrue no_kwargs)],
       JOB_COMPLETED = False\<rparr>)"
proof -
  have "request_oauth2 (srv_const invalid_patch_response) client0 Get
      (self_server_url client0 @ ''/qiita_db/jobs/7'') (self_verify client0) no_kwargs world0 =
      (Inl (KeyError ''error_description''), client0,
       after_call world0
         (first_call client0 Get (self_server_url client0 @ ''/qiita_db/jobs/7'')
            (self_verify client0) no_kwargs))"
    by (simp add: request_oauth2_def send_def srv_const_def invalid_patch_response_def
        first_call_def after_call_def)
  then show ?thesis
    by (simp add: get_def request_retry_def request_retry_loop_raises after_call_def
        world0_def client0_def)
qed

lemma request_retry_sends_first:
  "\<exists>rest. events (snd (snd (request_retry srv self rq url kw w))) =
      events w @
      Net (first_call self rq (self_server_url self @ url) (self_verify self) kw) # rest"
proof -
  let ?u = "self_server_url self @ url"
  obtain res self1 w1 where o: "request_oauth2 srv self rq ?u (self_verify self) kw w = (res, self1, w1)"
    by (cases "request_oauth2 srv self rq ?u (self_verify self) kw w") auto
  from request_oauth2_sends_first [of srv self rq ?u "self_verify self" kw w] o
  obtain rest1 where w1: "events w1 =
      events w @ Net (first_call self rq ?u (self_verify self) kw) # rest1"
    by auto
  show ?thesis
  proof (cases res)
    case (Inl e)
    with o w1 show ?thesis
      by (simp add: request_retry_def request_retry_loop_raises)
  next
    case (Inr r)
    from request_retry_loop_extends [of srv self1 rq ?u kw 1 "Some r" w1]
    obtain rest2 where "events (snd (snd (request_retry_loop srv self1 rq ?u kw 1 (Some r) w1))) =
        events w1 @ rest2"
      by blast
    with o w1 Inr show ?thesis
      by (simp add: request_retry_def request_retry_loop_response)
  qed
qed

lemma patch_data_lookup:
  "map_of (patch_data op path val from_p) ''op'' = Some op \<and>
   map_of (patch_data op path val from_p) ''path'' = Some path \<and>
   map_of (patch_data op path val from_p) ''value'' = val \<and>
   map_of (patch_data op path val from_p) ''from'' = from_p \<and>
   fst ` set (patch_data op path val from_p) \<subseteq> {''op'', ''path'', ''value'', ''from''}"
  by (cases val; cases from_p) (simp_all add: patch_data_def)

text \<open>
  C7. \<open>patch\<close> fails with \<open>ValueError\<close> when \<open>op\<close> is one of add, replace, test and no
  value is given, or \<open>op\<close> is one of move, copy and no \<open>from_p\<close> is given, and the log is
  then unchanged: no call was made. Otherwise it is the PATCH request of \<open>_request_retry\<close>
  with the dict \<open>data\<close> as its body, the first call made carries that body, and the dict
  holds \<open>op\<close> and \<open>path\<close>, holds \<open>value\<close> and \<open>from\<close> exactly when they were given, and
  holds no other key.
\<close>

theorem patch_contract:
  "(op \<in> {''add'', ''replace'', ''test''} \<and> val = None \<longrightarrow>
      (\<exists>msg. patch srv self url op path val from_p kw w = (Inl (ValueError msg), self, w))) \<and>
   (op \<in> {''move'', ''copy''} \<and> from_p = None \<longrightarrow>
      (\<exists>msg. patch srv self url op path val from_p kw w = (Inl (ValueError msg), self, w))) \<and>
   (\<not> (op \<in> {''add'', ''replace'', ''test''} \<and> val = None) \<and>
    \<not> (op \<in> {''move'', ''copy''} \<and> from_p = None) \<longrightarrow>
      patch srv self url op path val from_p kw w =
        request_retry srv self Patch url
          (kw\<lparr>kw_data := Some (DataDict (patch_data op path val from_p))\<rparr>) w \<and>
      (\<exists>sent rest.
         events (snd (snd (patch srv self url op path val from_p kw w))) =
           events w @ Net sent # rest \<and>
         c_req sent = Patch \<and> c_url sent = self_server_url self @ url \<and>
         c_data sent = Some (DataDict (patch_data op path val from_p))) \<and>
      map_of (patch_data op path val from_p) ''op'' = Some op \<and>
      map_of (patch_data op path val from_p) ''path'' = Some path \<and>
      map_of (patch_data op path val from_p) ''value'' = val \<and>
      map_of (patch_data op path val from_p) ''from'' = from_p \<and>
      fst ` set (patch_data op path val from_p) \<subseteq> {''op'', ''path'', ''value'', ''from''})"
  (is "(?no_value \<longrightarrow> ?A) \<and> (?no_from \<longrightarrow> ?B) \<and> (?fine \<longrightarrow> ?C)")
proof (intro conjI impI)
  assume ?no_value
  then show ?A by (auto simp: patch_def)
next
  assume ?no_from
  then show ?B by (auto simp: patch_def)
next
  assume fine: ?fine
  let ?kw = "kw\<lparr>kw_data := Some (DataDict (patch_data op path val from_p))\<rparr>"
  from fine show p: "patch srv self url op path val from_p kw w =
      request_retry srv self Patch url ?kw w"
    by (auto simp: patch_def)
  from request_retry_sends_first [of srv self Patch url ?kw w]
  obtain rest where "events (snd (snd (request_retry srv self Patch url ?kw w))) =
      events w @ Net (first_call self Patch (self_server_url self @ url) (self_verify self) ?kw) # rest"
    by blast
  with p show "\<exists>sent rest.
      events (snd (snd (patch srv self url op path val from_p kw w))) = events w @ Net sent # rest \<and>
      c_req sent = Patch \<and> c_url sent = self_server_url self @ url \<and>
      c_data sent = Some (DataDict (patch_data op path val from_p))"
    by (auto simp: first_call_def call_of_def with_authorization_def)
qed (simp_all add: patch_data_lookup)

theorem patch_contract_witness:
  "(\<exists>msg. patch srv_unreachable client0 ''/qiita_db/artifacts/1/'' ''add'' ''/x'' None None
            no_kwargs world0 = (Inl (ValueError msg), client0, world0)) \<and>
   (\<exists>msg. patch srv_unreachable client0 ''/qiita_db/artifacts/1/'' ''move'' ''/x'' None None
            no_kwargs world0 = (Inl (ValueError msg), client0, world0)) \<and>
   patch_data ''replace'' ''/x'' (Some ''v'') None =
     [(''op'', ''replace''), (''path'', ''/x''), (''value'', ''v'')] \<and>
   (\<exists>sent rest.
      events (snd (snd (patch srv_unreachable client0 ''/qiita_db/artifacts/1/'' ''replace''
                          ''/x'' (Some ''v'') None no_kwargs world0))) = Net sent # rest \<and>
      c_req sent = Patch \<and>
      c_data sent = Some (DataDict [(''op'', ''replace''), (''path'', ''/x''), (''value'', ''v'')]))"
proof -
  have d: "patch_data ''replace'' ''/x'' (Some ''v'') None =
      [(''op'', ''replace''), (''path'', ''/x''), (''value'', ''v'')]"
    by (simp add: patch_data_def)
  from patch_contract [of "''add''" None srv_unreachable client0 "''/qiita_db/artifacts/1/''"
      "''/x''" None no_kwargs world0]
  have a: "\<exists>msg. patch srv_unreachable client0 ''/qiita_db/artifacts/1/'' ''add'' ''/x'' None None
      no_kwargs world0 = (Inl (ValueError msg), client0, world0)"
    by simp
  from patch_contract [of "''move''" None srv_unreachable client0 "''/qiita_db/artifacts/1/''"
      "''/x''" None no_kwargs world0]
  have b: "\<exists>msg. patch srv_unreachable client0 ''/qiita_db/artifacts/1/'' ''move'' ''/x'' None None
      no_kwargs world0 = (Inl (ValueError msg), client0, world0)"
    by simp
  from patch_contract [of "''replace''" "Some ''v''" srv_unreachable client0
      "''/qiita_db/artifacts/1/''" "''/x''" None no_kwargs world0]
  have c: "\<exists>sent rest.
      events (snd (snd (patch srv_unreachable client0 ''/qiita_db/artifacts/1/'' ''replace''
                          ''/x'' (Some ''v'') None no_kwargs world0))) = Net sent # rest \<and>
      c_req sent = Patch \<and>
      c_data sent = Some (DataDict [(''op'', ''replace''), (''path'', ''/x''), (''value'', ''v'')])"
    unfolding d world0_def by auto
  from a b c d show ?thesis by blast
qed

section \<open>The heartbeat loop\<close>

lemma post_unreachable:
  "srv (events w) (first_call self Post (self_server_url self @ url) (self_verify self) kw) =
     Inl e \<Longrightarrow>
   post srv self url kw w =
     (Inl e, self,
      after_call w (first_call self Post (self_server_url self @ url) (self_verify self) kw))"
  by (simp add: post_def request_retry_def request_retry_loop_first_raises)

text \<open>
  C6. The budget starts at 2. A pass of the loop in which \<open>post\<close> raises
  \<open>ConnectionError\<close> sleeps 300 seconds (and then the 30 seconds of every pass) and goes
  on with the budget one lower; a pass in which \<open>post\<close> succeeds goes on with the budget
  back at 2; the loop returns as soon as its condition finds the budget at 0 or the
  completion flag set. So when the flag stays unset and the server cannot be reached at the
  first two calls, the loop has returned after the second failure, having made exactly two
  calls, whatever the server would have answered to a third one.
\<close>

theorem heartbeat_budget:
  "heartbeat fuel srv completed qclient url w =
     heartbeat_loop fuel srv completed qclient url 0 2 w \<and>
   (\<not> completed k \<and> 0 < retries \<and>
    post srv qclient url (data_kwargs (DataStr '''')) w = (Inl (ConnectionError m), qclient1, w1) \<longrightarrow>
      heartbeat_loop (Suc fuel) srv completed qclient url k retries w =
        heartbeat_loop fuel srv completed qclient1 url (Suc k) (retries - 1)
          (w1\<lparr>events := events w1 @ [Sleep 300, Sleep 30]\<rparr>)) \<and>
   (\<not> completed k \<and> 0 < retries \<and>
    post srv qclient url (data_kwargs (DataStr '''')) w = (Inr j, qclient1, w1) \<longrightarrow>
      heartbeat_loop (Suc fuel) srv completed qclient url k retries w =
        heartbeat_loop fuel srv completed qclient1 url (Suc k) 2
          (w1\<lparr>events := events w1 @ [Sleep 30]\<rparr>)) \<and>
   (completed k \<or> retries \<le> 0 \<longrightarrow>
      heartbeat_loop (Suc fuel) srv completed qclient url k retries w =
        Some (Inr (), qclient, w)) \<and>
   (\<not> completed 0 \<and> \<not> completed 1 \<and>
    srv (events w)
      (first_call qclient Post (self_server_url qclient @ url) (self_verify qclient)
         (data_kwargs (DataStr ''''))) = Inl (ConnectionError m) \<and>
    srv (events w @
           [Net (first_call qclient Post (self_server_url qclient @ url) (self_verify qclient)
                   (data_kwargs (DataStr ''''))),
            Sleep 300, Sleep 30])
      (first_call qclient Post (self_server_url qclient @ url) (self_verify qclient)
         (data_kwargs (DataStr ''''))) = Inl (ConnectionError m') \<longrightarrow>
      heartbeat (Suc (Suc (Suc fuel))) srv completed qclient url w =
        Some (Inr (), qclient,
              w\<lparr>events := events w @
                   [Net (first_call qclient Post (self_server_url qclient @ url)
                           (self_verify qclient) (data_kwargs (DataStr ''''))),
                    Sleep 300, Sleep 30,
                    Net (first_call qclient Post (self_server_url qclient @ url)
                           (self_verify qclient) (data_kwargs (DataStr ''''))),
                    Sleep 300, Sleep 30]\<rparr>))"
  (is "?start \<and> (?fail \<longrightarrow> ?A) \<and> (?ok \<longrightarrow> ?B) \<and> (?stop \<longrightarrow> ?C) \<and> (?twice \<longrightarrow> ?D)")
proof (intro conjI impI)
  show ?start by (simp add: heartbeat_def)
next
  assume ?fail
  then show ?A by (simp add: sleep_def)
next
  assume ?ok
  then show ?B by (simp add: sleep_def)
next
  assume ?stop
  then show ?C by auto
next
  assume h: ?twice
  let ?c = "first_call qclient Post (self_server_url qclient @ url) (self_verify qclient)
      (data_kwargs (DataStr ''''))"
  let ?w1 = "sleep 30 (sleep 300 (after_call w ?c))"
  from h have p1: "post srv qclient url (data_kwargs (DataStr '''')) w =
      (Inl (ConnectionError m), qclient, after_call w ?c)"
    by (simp add: post_unreachable)
  have ev: "events ?w1 = events w @ [Net ?c, Sleep 300, Sleep 30]"
    by (simp add: sleep_def after_call_def)
  with h have "srv (events ?w1) ?c = Inl (ConnectionError m')" by simp
  then have p2: "post srv qclient url (data_kwargs (DataStr '''')) ?w1 =
      (Inl (ConnectionError m'), qclient, after_call ?w1 ?c)"
    by (rule post_unreachable)
  from h p1 have s1: "heartbeat (Suc (Suc (Suc fuel))) srv completed qclient url w =
      heartbeat_loop (Suc (Suc fuel)) srv completed qclient url 1 1 ?w1"
    by (simp add: heartbeat_def)
  from h p2 have s2: "heartbeat_loop (Suc (Suc fuel)) srv completed qclient url 1 1 ?w1 =
      heartbeat_loop (Suc fuel) srv completed qclient url 2 0
        (sleep 30 (sleep 300 (after_call ?w1 ?c)))"
    by simp
  have s3: "heartbeat_loop (Suc fuel) srv completed qclient url 2 0
      (sleep 30 (sleep 300 (after_call ?w1 ?c))) =
      Some (Inr (), qclient, sleep 30 (sleep 300 (after_call ?w1 ?c)))"
    by simp
  from s1 s2 s3 show ?D
    by (simp add: sleep_def after_call_def)
qed

lemma post_ok:
  assumes "srv (events w) (first_call self Post (self_server_url self @ url) (self_verify self) kw) =
      Inr r"
    and "status_code r = 200"
  shows "post srv self url kw w =
     (Inr (case body_json r of Some j \<Rightarrow> j | None \<Rightarrow> JNull), self,
      after_call w (first_call self Post (self_server_url self @ url) (self_verify self) kw))"
proof -
  from assms have "request_oauth2 srv self Post (self_server_url self @ url) (self_verify self) kw w =
      (Inr r, self,
       after_call w (first_call self Post (self_server_url self @ url) (self_verify self) kw))"
    by (simp add: request_oauth2_not_400)
  with assms(2) show ?thesis
    by (simp add: post_def request_retry_def request_retry_loop_response)
qed

lemma heartbeat_call_client0:
  "first_call client0 Post (self_server_url client0 @ ''/qiita_db/jobs/7/heartbeat/'')
     (self_verify client0) (data_kwargs (DataStr '''')) = heartbeat_call"
  by (simp add: first_call_def call_of_def with_authorization_def client0_def data_kwargs_def
      heartbeat_call_def)

theorem heartbeat_budget_witness:
  "heartbeat 3 srv_unreachable never_completed client0 ''/qiita_db/jobs/7/heartbeat/'' world0 =
     Some (Inr (), client0,
           \<lparr>events = [Net heartbeat_call, Sleep 300, Sleep 30,
                      Net heartbeat_call, Sleep 300, Sleep 30],
            JOB_COMPLETED = False\<rparr>) \<and>
   heartbeat 3 (srv_const empty_ok_response) (completed_from 2) client0
     ''/qiita_db/jobs/7/heartbeat/'' world0 =
     Some (Inr (), client0,
           \<lparr>events = [Net heartbeat_call, Sleep 30, Net heartbeat_call, Sleep 30],
            JOB_COMPLETED = False\<rparr>)"
proof -
  let ?url = "''/qiita_db/jobs/7/heartbeat/''"
  let ?kw = "data_kwargs (DataStr '''')"
  let ?ok = "srv_const empty_ok_response"
  have three: "(3::nat) = Suc (Suc (Suc 0))" by simp
  from heartbeat_budget [where fuel = 0 and srv = srv_unreachable and completed = never_completed
      and qclient = client0 and url = ?url and w = world0 and m = "''Connection refused''"
      and m' = "''Connection refused''"]
  have a: "heartbeat 3 srv_unreachable never_completed client0 ?url world0 =
      Some (Inr (), client0,
            world0\<lparr>events := events world0 @
               [Net heartbeat_call, Sleep 300, Sleep 30,
                Net heartbeat_call, Sleep 300, Sleep 30]\<rparr>)"
    unfolding heartbeat_call_client0 three
    by (simp add: never_completed_def srv_unreachable_def)
  let ?w1 = "after_call world0 heartbeat_call"
  let ?w2 = "?w1\<lparr>events := events ?w1 @ [Sleep 30]\<rparr>"
  let ?w3 = "after_call ?w2 heartbeat_call"
  let ?w4 = "?w3\<lparr>events := events ?w3 @ [Sleep 30]\<rparr>"
  have p: "post ?ok client0 ?url ?kw w = (Inr JNull, client0, after_call w heartbeat_call)" for w
    using post_ok [where srv = ?ok and w = w and self = client0 and url = ?url and kw = ?kw
        and r = empty_ok_response]
    unfolding heartbeat_call_client0
    by (simp add: srv_const_def empty_ok_response_def)
  from heartbeat_budget [where fuel = 2 and srv = ?ok and completed = "completed_from 2"
      and qclient = client0 and url = ?url and w = world0 and k = 0 and retries = 2
      and j = JNull and ?qclient1.0 = client0 and ?w1.0 = ?w1] p [of world0]
  have b1: "heartbeat 3 ?ok (completed_from 2) client0 ?url world0 =
      heartbeat_loop 2 ?ok (completed_from 2) client0 ?url 1 2 ?w2"
    by (simp add: completed_from_def heartbeat_def numeral_3_eq_3)
  from heartbeat_budget [where fuel = 1 and srv = ?ok and completed = "completed_from 2"
      and qclient = client0 and url = ?url and w = ?w2 and k = 1 and retries = 2
      and j = JNull and ?qclient1.0 = client0 and ?w1.0 = ?w3] p [of ?w2]
  have b2: "heartbeat_loop 2 ?ok (completed_from 2) client0 ?url 1 2 ?w2 =
      heartbeat_loop 1 ?ok (completed_from 2) client0 ?url 2 2 ?w4"
    by (simp add: completed_from_def numeral_2_eq_2)
  from heartbeat_budget [where fuel = 0 and srv = ?ok and completed = "completed_from 2"
      and qclient = client0 and url = ?url and w = ?w4 and k = 2 and retries = 2]
  have b3: "heartbeat_loop 1 ?ok (completed_from 2) client0 ?url 2 2 ?w4 =
      Some (Inr (), client0, ?w4)"
    by (simp add: completed_from_def)
  from a b1 b2 b3 show ?thesis
    by (simp add: after_call_def world0_def)
qed

section \<open>The coordinator\<close>

lemma request_retry_ok:
  assumes "srv (events w) (first_call self rq (self_server_url self @ url) (self_verify self) kw) =
      Inr r"
    and "status_code r = 200"
  shows "request_retry srv self rq url kw w =
     (Inr (case body_json r of Some j \<Rightarrow> j | None \<Rightarrow> JNull), self,
      after_call w (first_call self rq (self_server_url self @ url) (self_verify self) kw))"
proof -
  from assms have "request_oauth2 srv self rq (self_server_url self @ url) (self_verify self) kw w =
      (Inr r, self,
       after_call w (first_call self rq (self_server_url self @ url) (self_verify self) kw))"
    by (simp add: request_oauth2_not_400)
  with assms(2) show ?thesis
    by (simp add: request_retry_def request_retry_loop_response)
qed

lemma request_retry_not_found:
  assumes "srv (events w) (first_call self rq (self_server_url self @ url) (self_verify self) kw) =
      Inr r"
    and "status_code r = 404"
  shows "request_retry srv self rq url kw w =
     (Inl (NotFoundError (body_text r)), self,
      after_call w (first_call self rq (self_server_url self @ url) (self_verify self) kw))"
proof -
  from assms have "request_oauth2 srv self rq (self_server_url self @ url) (self_verify self) kw w =
      (Inr r, self,
       after_call w (first_call self rq (self_server_url self @ url) (self_verify self) kw))"
    by (simp add: request_oauth2_not_400)
  with assms(2) show ?thesis
    by (simp add: request_retry_def request_retry_loop_response)
qed

lemma init_has_no_onf_fp:
  "map_of (BaseQiitaPlugin_init module_dir name version description conf_fp) ''onf_fp'' = None"
  by (simp add: BaseQiitaPlugin_init_def)

lemma register_command_keeps_names:
  assumes "register_command self command = Inr self'" and "map_of self ''onf_fp'' = None"
  shows "map_of self' ''onf_fp'' = None"
  using assms
  by (auto simp: register_command_def update_conv' split: sum.splits attr_value.splits)

lemma call_without_onf_fp:
  assumes "map_of self ''onf_fp'' = None"
  shows "BaseQiitaPlugin_call os srv self server_url job_id output_dir w =
     (Inl (AttributeError
             (squote @ ''BaseQiitaPlugin'' @ squote @ '' object has no attribute '' @
              squote @ ''onf_fp'' @ squote)), w)"
  using assms by (simp add: BaseQiitaPlugin_call_def getattr_def)

text \<open>
  C9. The constructor assigns \<open>conf_fp\<close> and never \<open>onf_fp\<close>, registering a command
  leaves it that way, and on a plugin object without the attribute \<open>onf_fp\<close>, whatever the
  server URL, the job id and the output directory, \<open>__call__\<close> raises \<open>AttributeError\<close> with
  the log unchanged: no authentication, job-info fetch, heartbeat or completion call was
  made.
\<close>

theorem call_raises_attribute_error:
  "map_of (BaseQiitaPlugin_init module_dir name version description conf_fp) ''onf_fp'' = None \<and>
   (register_command self command = Inr self' \<and> map_of self ''onf_fp'' = None \<longrightarrow>
      map_of self' ''onf_fp'' = None) \<and>
   (map_of self ''onf_fp'' = None \<longrightarrow>
      BaseQiitaPlugin_call os srv self server_url job_id output_dir w =
        (Inl (AttributeError
                (squote @ ''BaseQiitaPlugin'' @ squote @ '' object has no attribute '' @
                 squote @ ''onf_fp'' @ squote)), w))"
  using init_has_no_onf_fp register_command_keeps_names call_without_onf_fp by blast

theorem call_raises_attribute_error_witness:
  "register_command plugin0 failing_command = Inr plugin1 \<and>
   BaseQiitaPlugin_call os0 srv_expired_once plugin1 ''https://qiita'' ''7'' ''/tmp/out'' world0 =
     (Inl (AttributeError
             (squote @ ''BaseQiitaPlugin'' @ squote @ '' object has no attribute '' @
              squote @ ''onf_fp'' @ squote)), world0) \<and>
   events world0 = []"
proof -
  have r: "register_command plugin0 failing_command = Inr plugin1"
    by (simp add: register_command_def getattr_def plugin0_def plugin1_def
        BaseQiitaPlugin_init_def failing_command_def)
  from call_raises_attribute_error [of "''/opt/plugin''" "''Target gene''" "''0.1''"
      "''target gene''" None plugin0 failing_command plugin1] r
  have n: "map_of plugin1 ''onf_fp'' = None"
    by (simp add: plugin0_def)
  from call_raises_attribute_error [of "''/opt/plugin''" "''Target gene''" "''0.1''"
      "''target gene''" None plugin1 failing_command plugin1 os0 srv_expired_once
      "''https://qiita''" "''7''" "''/tmp/out''" world0] n
  have "BaseQiitaPlugin_call os0 srv_expired_once plugin1 ''https://qiita'' ''7'' ''/tmp/out''
      world0 =
      (Inl (AttributeError
              (squote @ ''BaseQiitaPlugin'' @ squote @ '' object has no attribute '' @
               squote @ ''onf_fp'' @ squote)), world0)"
    by blast
  with r show ?thesis
    by (simp add: world0_def)
qed

lemma call_job_fetch_fails:
  "get_job_info srv qclient job_id w = (Inl e, qclient1, w1) \<Longrightarrow>
   call_job os srv self qclient job_id output_dir w = (Inl e, w1)"
  by (simp add: call_job_def)

lemma run_task_captures:
  "subscript job_info ''parameters'' = Inr parameters \<Longrightarrow>
   QiitaCommand_call task srv qclient job_id parameters output_dir w = (Inl e, qclient1, w1) \<Longrightarrow>
   is_Exception e \<Longrightarrow>
   run_task os srv qclient job_id job_info task_name task output_dir w =
     (Inr (False, None,
           Some (''Error executing '' @ task_name @ '':'' @ [CHR 0x0A] @ format_exception os e)),
      qclient1, w1)"
  by (simp add: run_task_def)

lemma run_task_returns:
  "subscript job_info ''parameters'' = Inr parameters \<Longrightarrow>
   QiitaCommand_call task srv qclient job_id parameters output_dir w = (Inr result, qclient1, w1) \<Longrightarrow>
   run_task os srv qclient job_id job_info task_name task output_dir w = (Inr result, qclient1, w1)"
  by (simp add: run_task_def)

lemma call_job_completes:
  "get_job_info srv qclient job_id w = (Inr job_info, qclient1, w1) \<Longrightarrow>
   start_heartbeat srv qclient1 job_id w1 = (Inr (), qclient2, w2) \<Longrightarrow>
   subscript job_info ''command'' = Inr command \<Longrightarrow>
   lookup_task self command = Inr (task_name, task) \<Longrightarrow>
   ensure_output_dir os output_dir w2 = (Inr (), w3) \<Longrightarrow>
   run_task os srv qclient2 job_id job_info task_name task output_dir w3 =
     (Inr (success, artifacts_info, error_msg), qclient4, w4) \<Longrightarrow>
   call_job os srv self qclient job_id output_dir w =
     (case complete_job srv qclient4 job_id success error_msg artifacts_info w4 of
        (Inl e, qclient5, w5) \<Rightarrow> (Inl e, w5)
      | (Inr u, qclient5, w5) \<Rightarrow> (Inr (), w5))"
  by (simp add: call_job_def)

lemma first_call_get_client0:
  "first_call client0 Get (self_server_url client0 @ ''/qiita_db/jobs/'' @ job_id)
     (self_verify client0) \<lparr>kw_headers = None, kw_data = None\<rparr> = job_call job_id"
  by (simp add: first_call_def call_of_def with_authorization_def client0_def job_call_def)

lemma first_call_post_client0:
  "first_call client0 Post (self_server_url client0 @ ''/qiita_db/jobs/7/heartbeat/'')
     (self_verify client0) (data_kwargs (DataStr '''')) = heartbeat_call"
  by (simp add: first_call_def call_of_def with_authorization_def client0_def data_kwargs_def
      heartbeat_call_def)

lemma first_call_complete_client0:
  "first_call client0 Post (self_server_url client0 @ ''/qiita_db/jobs/7/complete/'')
     (self_verify client0) (data_kwargs (DataDumps p)) = complete_call p"
  by (simp add: first_call_def call_of_def with_authorization_def client0_def data_kwargs_def
      complete_call_def)

lemma get_job_info_unknown:
  "get_job_info (srv_const not_found_response) client0 job_id w =
     (Inl (NotFoundError ''no such job''), client0, after_call w (job_call job_id))"
  using request_retry_not_found [where srv = "srv_const not_found_response" and w = w
      and self = client0 and rq = Get and url = "''/qiita_db/jobs/'' @ job_id"
      and kw = "\<lparr>kw_headers = None, kw_data = None\<rparr>" and r = not_found_response]
  unfolding first_call_get_client0
  by (simp add: get_job_info_def get_def srv_const_def not_found_response_def)

lemma get_job_info_known:
  "get_job_info (srv_const job_response) client0 job_id w =
     (Inr (JObj [(''command'', JStr ''Split libraries''), (''parameters'', JObj [])]), client0,
      after_call w (job_call job_id))"
  using request_retry_ok [where srv = "srv_const job_response" and w = w
      and self = client0 and rq = Get and url = "''/qiita_db/jobs/'' @ job_id"
      and kw = "\<lparr>kw_headers = None, kw_data = None\<rparr>" and r = job_response]
  unfolding first_call_get_client0
  by (simp add: get_job_info_def get_def srv_const_def job_response_def)

lemma start_heartbeat_known:
  "start_heartbeat (srv_const job_response) client0 ''7'' w =
     (Inr (), client0,
      (after_call w heartbeat_call)
        \<lparr>events := events (after_call w heartbeat_call) @
           [ThreadStart ''/qiita_db/jobs/7/heartbeat/'']\<rparr>)"
  using request_retry_ok [where srv = "srv_const job_response" and w = w
      and self = client0 and rq = Post and url = "''/qiita_db/jobs/7/heartbeat/''"
      and kw = "data_kwargs (DataStr '''')" and r = job_response]
  unfolding first_call_post_client0
  by (simp add: start_heartbeat_def post_def srv_const_def job_response_def)

lemma complete_job_known:
  "complete_job (srv_const job_response) client0 ''7'' success error_msg artifacts_info w =
     (Inr (), client0,
      after_call (w\<lparr>JOB_COMPLETED := True\<rparr>)
        (complete_call (format_payload success error_msg artifacts_info)))"
  using request_retry_ok [where srv = "srv_const job_response" and w = "w\<lparr>JOB_COMPLETED := True\<rparr>"
      and self = client0 and rq = Post and url = "''/qiita_db/jobs/7/complete/''"
      and kw = "data_kwargs (DataDumps (format_payload success error_msg artifacts_info))"
      and r = job_response]
  unfolding first_call_complete_client0
  by (simp add: complete_job_def post_def srv_const_def job_response_def)

lemma plugin1_no_onf_fp: "map_of plugin1 ''onf_fp'' = None"
  by (simp add: plugin1_def plugin0_def BaseQiitaPlugin_init_def update_conv')

lemma lookup_task_plugin1:
  "lookup_task plugin1 (JStr ''Split libraries'') = Inr (''Split libraries'', failing_command)"
  by (simp add: lookup_task_def getattr_def plugin1_def plugin0_def BaseQiitaPlugin_init_def)

text \<open>
  C4, at two runs of the coordinator. Against a server that answers 404 to the job-info
  fetch, \<open>__call__\<close> raises \<open>AttributeError\<close> before any call, where the branch that runs
  the job, entered with a client, lets \<open>NotFoundError\<close> through after the fetch as its only
  call. With a job whose function raises, \<open>__call__\<close> again raises \<open>AttributeError\<close> before
  any call, where the branch that runs the job posts the completion once, with \<open>success\<close>
  false, the captured error as the message and no artifacts.
\<close>

theorem call_never_reaches_job:
  "BaseQiitaPlugin_call os0 (srv_const not_found_response) plugin1 ''https://qiita''
     ''unknown-id'' ''/tmp/out'' world0 =
     (Inl (AttributeError
             (squote @ ''BaseQiitaPlugin'' @ squote @ '' object has no attribute '' @
              squote @ ''onf_fp'' @ squote)), world0) \<and>
   call_job os0 (srv_const not_found_response) plugin1 client0 ''unknown-id'' ''/tmp/out'' world0 =
     (Inl (NotFoundError ''no such job''),
      \<lparr>events = [Net (job_call ''unknown-id'')], JOB_COMPLETED = False\<rparr>) \<and>
   BaseQiitaPlugin_call os0 (srv_const job_response) plugin1 ''https://qiita'' ''7'' ''/tmp/out''
     world0 =
     (Inl (AttributeError
             (squote @ ''BaseQiitaPlugin'' @ squote @ '' object has no attribute '' @
              squote @ ''onf_fp'' @ squote)), world0) \<and>
   call_job os0 (srv_const job_response) plugin1 client0 ''7'' ''/tmp/out'' world0 =
     (Inr (),
      \<lparr>events =
         [Net (job_call ''7''), Net heartbeat_call, ThreadStart ''/qiita_db/jobs/7/heartbeat/'',
          Net (complete_call
                 \<lparr>p_success = False,
                  p_error = Some (''Error executing Split libraries:'' @ [CHR 0x0A] @ ''boom''),
                  p_artifacts = None\<rparr>)],
       JOB_COMPLETED = True\<rparr>)"
proof -
  let ?ok = "srv_const job_response"
  let ?job_info = "JObj [(''command'', JStr ''Split libraries''), (''parameters'', JObj [])]"
  let ?w1 = "after_call world0 (job_call ''7'')"
  let ?w2 = "(after_call ?w1 heartbeat_call)
      \<lparr>events := events (after_call ?w1 heartbeat_call) @
         [ThreadStart ''/qiita_db/jobs/7/heartbeat/'']\<rparr>"
  have a: "call_job os0 (srv_const not_found_response) plugin1 client0 ''unknown-id'' ''/tmp/out''
      world0 = (Inl (NotFoundError ''no such job''), after_call world0 (job_call ''unknown-id''))"
    by (rule call_job_fetch_fails) (rule get_job_info_unknown)
  have dir: "ensure_output_dir os0 ''/tmp/out'' ?w2 = (Inr (), ?w2)"
    by (simp add: ensure_output_dir_def os0_def)
  have task: "run_task os0 ?ok client0 ''7'' ?job_info ''Split libraries'' failing_command
      ''/tmp/out'' ?w2 =
      (Inr (False, None, Some (''Error executing Split libraries:'' @ [CHR 0x0A] @ ''boom'')),
       client0, ?w2)"
    using run_task_captures [where job_info = ?job_info and parameters = "JObj []"
        and task = failing_command and srv = ?ok and qclient = client0 and job_id = "''7''"
        and output_dir = "''/tmp/out''" and w = ?w2 and e = "ValueError ''boom''"
        and ?qclient1.0 = client0 and ?w1.0 = ?w2 and os = os0
        and task_name = "''Split libraries''"]
    by (simp add: QiitaCommand_call_def failing_command_def failing_function_def os0_def)
  have b: "call_job os0 ?ok plugin1 client0 ''7'' ''/tmp/out'' world0 =
      (Inr (),
       after_call (?w2\<lparr>JOB_COMPLETED := True\<rparr>)
         (complete_call
            (format_payload False
               (Some (''Error executing Split libraries:'' @ [CHR 0x0A] @ ''boom'')) None)))"
    using call_job_completes [OF get_job_info_known start_heartbeat_known _ lookup_task_plugin1
        dir task]
    by (simp add: complete_job_known)
  from a b show ?thesis
    by (simp add: call_without_onf_fp plugin1_no_onf_fp after_call_def world0_def
        format_payload_def)
qed

end
